theory Spec2Isabelle
  imports Main "HOL-Library.Multiset" "HOL-Library.Char_ord" "HOL-Library.List_Lexorder"
begin

section \<open>Go strings\<close>

text \<open>
  The slash-command handlers of the plugin (\<open>server/plugin/command.go\<close>) and the
  parts of \<open>plugin.go\<close> and \<open>subscription.go\<close> they call (both are held in
  \<open>webapp/src/components/github_repo_selector/index.js\<close>, whose line numbers are
  given). A Go \<open>string\<close> is a sequence of bytes; it is modelled as
  \<open>string\<close> (a \<open>char list\<close>).
  The functions of package \<open>strings\<close> that the command handlers call are written out
  here with the behaviour the Go standard library documents for them.
\<close>

text \<open>\<open>strings.HasPrefix(s, prefix)\<close>: \<open>len(s) >= len(prefix) && s[:len(prefix)] == prefix\<close>.\<close>

definition HasPrefix :: "string \<Rightarrow> string \<Rightarrow> bool" where
  "HasPrefix s p \<longleftrightarrow> length p \<le> length s \<and> take (length p) s = p"

text \<open>
  \<open>strings.Split(s, sep)\<close> for a separator of one byte (the handlers only split at
  \<open>","\<close>): the pieces between the separators, so \<open>n\<close> separators give
  \<open>n + 1\<close> pieces and the empty string gives one empty piece.
\<close>

fun Split :: "string \<Rightarrow> char \<Rightarrow> string list" where
  "Split [] sep = [[]]"
| "Split (c # cs) sep =
     (if c = sep then [] # Split cs sep
      else (case Split cs sep of
              [] \<Rightarrow> [[c]]
            | w # ws \<Rightarrow> (c # w) # ws))"

text \<open>\<open>strings.Join(elems, sep)\<close>.\<close>

fun Join :: "string list \<Rightarrow> string \<Rightarrow> string" where
  "Join [] sep = []"
| "Join [x] sep = x"
| "Join (x # y # ys) sep = x @ sep @ Join (y # ys) sep"

text \<open>\<open>strings.Contains(s, substr)\<close>: \<open>substr\<close> occurs in \<open>s\<close>.\<close>

fun Contains :: "string \<Rightarrow> string \<Rightarrow> bool" where
  "Contains [] substr = (substr = [])"
| "Contains (c # cs) substr = (HasPrefix (c # cs) substr \<or> Contains cs substr)"

section \<open>Feature names (command.go, lines 21-63)\<close>

definition featureIssueCreation :: string where "featureIssueCreation = ''issue_creations''"
definition featureIssues :: string where "featureIssues = ''issues''"
definition featurePulls :: string where "featurePulls = ''pulls''"
definition featurePullsMerged :: string where "featurePullsMerged = ''pulls_merged''"
definition featurePullsCreated :: string where "featurePullsCreated = ''pulls_created''"
definition featurePushes :: string where "featurePushes = ''pushes''"
definition featureCreates :: string where "featureCreates = ''creates''"
definition featureDeletes :: string where "featureDeletes = ''deletes''"
definition featureIssueComments :: string where "featureIssueComments = ''issue_comments''"
definition featurePullReviews :: string where "featurePullReviews = ''pull_reviews''"
definition featureStars :: string where "featureStars = ''stars''"
definition featureReleases :: string where "featureReleases = ''releases''"
definition featureWorkflowFailure :: string where "featureWorkflowFailure = ''workflow_failure''"
definition featureWorkflowSuccess :: string where "featureWorkflowSuccess = ''workflow_success''"
definition featureDiscussions :: string where "featureDiscussions = ''discussions''"
definition featureDiscussionComments :: string where
  "featureDiscussionComments = ''discussion_comments''"

text \<open>
  \<open>var validFeatures = map[string]bool{...}\<close>: the entries in the order of the source.
  The map itself is \<open>validFeatures\<close>; the code only ever tests a key's presence
  (\<open>_, ok := validFeatures[f]\<close>).
\<close>

definition validFeaturesEntries :: "(string \<times> bool) list" where
  "validFeaturesEntries =
    [(featureIssueCreation, True),
     (featureIssues, True),
     (featurePulls, True),
     (featurePullsMerged, True),
     (featurePullsCreated, True),
     (featurePushes, True),
     (featureCreates, True),
     (featureDeletes, True),
     (featureIssueComments, True),
     (featurePullReviews, True),
     (featureStars, True),
     (featureReleases, True),
     (featureWorkflowFailure, True),
     (featureWorkflowSuccess, True),
     (featureDiscussions, True),
     (featureDiscussionComments, True)]"

definition validFeatures :: "string \<rightharpoonup> bool" where
  "validFeatures = map_of validFeaturesEntries"

section \<open>validateFeatures (command.go, lines 81-106)\<close>

text \<open>
  The first loop of \<open>validateFeatures\<close>, over the state
  \<open>(valid, invalidFeatures, hasLabel)\<close>: a known feature is skipped, a feature that
  starts with \<open>label\<close> sets \<open>hasLabel\<close>, anything else is appended to
  \<open>invalidFeatures\<close> and clears \<open>valid\<close>.
\<close>

fun validateFeatures_scan ::
  "string list \<Rightarrow> bool \<times> string list \<times> bool \<Rightarrow> bool \<times> string list \<times> bool" where
  "validateFeatures_scan [] st = st"
| "validateFeatures_scan (f # fs) (valid, invalidFeatures, hasLabel) =
     (if validFeatures f \<noteq> None then validateFeatures_scan fs (valid, invalidFeatures, hasLabel)
      else if HasPrefix f ''label'' then validateFeatures_scan fs (valid, invalidFeatures, True)
      else validateFeatures_scan fs (False, invalidFeatures @ [f], hasLabel))"

text \<open>
  The second loop: does some feature equal \<open>pulls\<close>, \<open>issues\<close> or
  \<open>issue_creations\<close> (the loop returns from the function at the first one).
\<close>

fun validateFeatures_labelBase :: "string list \<Rightarrow> bool" where
  "validateFeatures_labelBase [] = False"
| "validateFeatures_labelBase (f # fs) =
     (if f = featurePulls \<or> f = featureIssues \<or> f = featureIssueCreation then True
      else validateFeatures_labelBase fs)"

definition validateFeatures :: "string list \<Rightarrow> bool \<times> string list" where
  "validateFeatures features =
     (case validateFeatures_scan features (True, [], False) of
        (valid, invalidFeatures, hasLabel) \<Rightarrow>
          if valid \<and> hasLabel then
            (if validateFeatures_labelBase features then (valid, invalidFeatures)
             else (False, invalidFeatures))
          else (valid, invalidFeatures))"

section \<open>parseCommand (command.go, lines 1202-1250)\<close>

text \<open>
  \<open>for _, char := range input\<close> walks the runes of the input, so the input is
  modelled as the list of runes the loop sees (a code point as a \<open>nat\<close>), and a token
  as the list of runes appended to it: \<open>current += string(char)\<close> appends the rune's
  UTF-8 encoding, which is never empty, so \<open>len(current) == 0\<close> holds exactly when no
  rune has been appended.
\<close>

type_synonym rune = nat

text \<open>
  \<open>unicode.IsSpace\<close>: in Latin-1 the runes \<open>\t \n \v \f \r\<close>, space, U+0085 and
  U+00A0; beyond Latin-1 the runes of the Unicode property \<open>White_Space\<close>.
\<close>

definition IsSpace :: "rune \<Rightarrow> bool" where
  "IsSpace r \<longleftrightarrow>
     (if r \<le> 0xFF then r \<in> {0x09, 0x0A, 0x0B, 0x0C, 0x0D, 0x20, 0x85, 0xA0}
      else r = 0x1680 \<or> (0x2000 \<le> r \<and> r \<le> 0x200A) \<or> r = 0x2028 \<or> r = 0x2029
           \<or> r = 0x202F \<or> r = 0x205F \<or> r = 0x3000)"

text \<open>The runes of an ASCII literal, for writing inputs down.\<close>

definition runes :: "string \<Rightarrow> rune list" where
  "runes s = map of_char s"

text \<open>
  The loop of \<open>parseCommand\<close> over the state \<open>(split, current, inQuotes)\<close>;
  \<open>0x20\<close> is the space appended inside quotes and \<open>0x22\<close> the double quote.
\<close>

fun parseCommand_loop ::
  "rune list \<Rightarrow> rune list list \<times> rune list \<times> bool \<Rightarrow> rune list list \<times> rune list \<times> bool" where
  "parseCommand_loop [] st = st"
| "parseCommand_loop (char # rest) (split, current, inQuotes) =
     (if IsSpace char then
        (if inQuotes then parseCommand_loop rest (split, current @ [0x20], inQuotes)
         else if length current = 0 \<and> \<not> inQuotes then
           parseCommand_loop rest (split, current, inQuotes)
         else parseCommand_loop rest (split @ [current], [], inQuotes))
      else parseCommand_loop rest
             (split, current @ [char], if char = 0x22 then \<not> inQuotes else inQuotes))"

text \<open>After the loop a non-empty \<open>current\<close> is appended as the last token.\<close>

definition parseCommand_finish :: "rune list list \<times> rune list \<times> bool \<Rightarrow> rune list list" where
  "parseCommand_finish st =
     (case st of (split, current, inQuotes) \<Rightarrow>
        if length current > 0 then split @ [current] else split)"

definition parseCommand_split :: "rune list \<Rightarrow> rune list list" where
  "parseCommand_split input = parseCommand_finish (parseCommand_loop input ([], [], False))"

text \<open>
  \<open>parseCommand\<close> returns \<open>(command, action, parameters)\<close>; \<open>None\<close> is the
  index-out-of-range panic of \<open>split[0]\<close> on an empty token list. A nil
  \<open>parameters\<close> slice is the empty list.
\<close>

definition parseCommand :: "rune list \<Rightarrow> (rune list \<times> rune list \<times> rune list list) option" where
  "parseCommand input =
     (let split = parseCommand_split input in
      case split of
        [] \<Rightarrow> None
      | command # _ \<Rightarrow>
          Some (command,
                if length split > 1 then split ! 1 else [],
                if length split > 2 then drop 2 split else []))"

text \<open>
  \<open>ExecuteCommand\<close> (command.go, lines 919-1022) starts with
  \<open>cmd, action, parameters := parseCommand(args.Command)\<close> and answers a command
  other than \<open>/github\<close> with an empty response. What it does from the test of
  \<open>action == "about"\<close> on is the parameter \<open>dispatch\<close>. \<open>None\<close> is the panic
  of \<open>parseCommand\<close>.
\<close>

datatype 'r CommandResponse = EmptyResponse | Handled 'r

definition ExecuteCommand ::
  "(rune list \<Rightarrow> rune list list \<Rightarrow> 'r) \<Rightarrow> rune list \<Rightarrow> 'r CommandResponse option" where
  "ExecuteCommand dispatch Command =
     (case parseCommand Command of
        None \<Rightarrow> None
      | Some (cmd, action, parameters) \<Rightarrow>
          if cmd \<noteq> runes ''/github'' then Some EmptyResponse
          else Some (Handled (dispatch action parameters)))"

section \<open>The key-value store\<close>

text \<open>
  \<open>p.store\<close> is a \<open>KvStore\<close>, an interface (plugin.go, lines 101-107)
  that the plugin API of the chat server implements. The handlers call
  \<open>p.store.Get\<close> and \<open>p.store.Set\<close>, each of which may return an error.
  The store is a map from keys to
  byte strings, together with the error (if any) that its reads and its writes return
  and the list of \<open>Set\<close> calls made so far, so that "no write" can be stated.
  \<open>Get\<close> of an absent key leaves the caller's variable at its zero value, the empty
  byte string.
\<close>

record KvStore =
  kv :: "string \<rightharpoonup> string"
  getErr :: "string option"
  setErr :: "string option"
  sets :: "(string \<times> string) list"


definition store_Set :: "KvStore \<Rightarrow> string \<Rightarrow> string \<Rightarrow> string option \<times> KvStore" where
  "store_Set s key v =
     (case setErr s of
        Some e \<Rightarrow> (Some e, s\<lparr>sets := sets s @ [(key, v)]\<rparr>)
      | None \<Rightarrow> (None, s\<lparr>kv := (kv s)(key \<mapsto> v), sets := sets s @ [(key, v)]\<rparr>))"

section \<open>Muted users (command.go, lines 149-219)\<close>

text \<open>
  Of \<open>GitHubUserInfo\<close> (plugin.go, lines 637-647) the handlers modelled here read
  the field \<open>UserID\<close>.
\<close>

record GitHubUserInfo =
  UserID :: string






section \<open>Subscriptions and the plugin's collaborators\<close>

text \<open>
  \<open>Features\<close> is a Go string type: the comma-separated feature list.
  \<open>ToSlice\<close> and \<open>FormattedString\<close> are its methods (command.go, lines 65-77).
\<close>

type_synonym Features = string

definition ToSlice :: "Features \<Rightarrow> string list" where
  "ToSlice features = Split features (CHR '','')"

definition FormattedString :: "Features \<Rightarrow> string" where
  "FormattedString features = ''`'' @ Join (Split features (CHR '','')) ''`, `'' @ ''`''"

text \<open>
  \<open>SubscriptionFlags\<close> and \<open>Subscription\<close> (subscription.go, lines 1248-1253 and
  1308-1314 of the file that holds it) with their fields; \<open>emptyFlags\<close> is the zero
  value \<open>SubscriptionFlags{}\<close>. The flag names are the constants of lines 1239-1246.
\<close>

record SubscriptionFlags =
  ExcludeOrgMembers :: bool
  IncludeOnlyOrgMembers :: bool
  RenderStyle :: string
  ExcludeRepository :: "string list"

definition emptyFlags :: SubscriptionFlags where
  "emptyFlags = \<lparr>ExcludeOrgMembers = False, IncludeOnlyOrgMembers = False,
                  RenderStyle = [], ExcludeRepository = []\<rparr>"

record Subscription =
  ChannelID :: string
  CreatorID :: string
  Features :: Features
  Flags :: SubscriptionFlags
  Repository :: string

definition flagExcludeOrgMember :: string where "flagExcludeOrgMember = ''exclude-org-member''"
definition flagIncludeOnlyOrgMembers :: string where
  "flagIncludeOnlyOrgMembers = ''include-only-org-members''"
definition flagRenderStyle :: string where "flagRenderStyle = ''render-style''"
definition flagFeatures :: string where "flagFeatures = ''features''"
definition flagExcludeRepository :: string where "flagExcludeRepository = ''exclude''"

text \<open>Of \<open>model.CommandArgs\<close> and \<open>model.User\<close> the handlers read these fields.\<close>

record CommandArgs =
  UserId :: string
  ChannelId :: string

record User =
  Username :: string

record GithubRepository =
  Private :: bool

text \<open>
  The calls with an effect outside the handler, in the order they are made: creating
  or removing a subscription and posting to a channel. A call is recorded when it is
  made, whether or not it returns an error.
\<close>

datatype Call =
    SubscribeCall string string string string Features SubscriptionFlags
  | SubscribeOrgCall string string string Features SubscriptionFlags
  | UnsubscribeCall string string string
  | CreatePostCall string string string

text \<open>
  The parameters of the model, collected in one record.
  \<^item> Not among the sources: the configuration (\<open>getBaseURL\<close>, \<open>GitHubOrg\<close>) and the
    helpers \<open>parseOwnerAndRepo\<close>, \<open>isFlag\<close>, \<open>parseFlag\<close> and
    \<open>fullNameFromOwnerAndRepo\<close>.
  \<^item> Of the Go library: \<open>strings.ToLower\<close>, \<open>strings.TrimSpace\<close> (both work on
    Unicode text) and \<open>sort.Slice\<close>, which is given the comparison and the slice
    and is not a stable sort.
  \<^item> What the outside returns: \<open>UserGet\<close> is \<open>p.client.User.Get\<close>,
    \<open>CreatePost\<close> is \<open>p.client.Post.CreatePost\<close>, \<open>RepositoriesGet\<close> is
    \<open>githubClient.Repositories.Get\<close>, and \<open>StoredSubscriptions\<close> is what
    \<open>p.store.Get(SubscriptionsKey, &subscriptions)\<close> delivers: an error, nothing
    stored (\<open>None\<close>), or the stored map from repository key to subscriptions, as an
    association list in the order a \<open>range\<close> over the map happens to visit it.
  \<^item> \<open>Subscribe\<close>, \<open>SubscribeOrg\<close> and \<open>Unsubscribe\<close> (subscription.go, lines
    1414-1493 and 1622-1652) query GitHub and rewrite the stored aggregate. A
    handler's call to one of them is recorded as a \<open>Call\<close> with its arguments, and
    the error the call returns is a parameter. \<open>checkIfConfiguredWebhookExists\<close>
    (command.go, lines 360-412) pages through the GitHub API; the pair it returns is
    a parameter.
  An error is a \<open>string\<close>, its message; \<open>None\<close> or \<open>Inr\<close> is a nil error.
\<close>

record Env =
  BotUserID :: string
  getBaseURL :: string
  GitHubOrg :: string
  ToLower :: "string \<Rightarrow> string"
  TrimSpace :: "string \<Rightarrow> string"
  sortSlice :: "(Subscription \<Rightarrow> Subscription \<Rightarrow> bool) \<Rightarrow> Subscription list \<Rightarrow> Subscription list"
  parseOwnerAndRepo :: "string \<Rightarrow> string \<Rightarrow> string \<times> string"
  fullNameFromOwnerAndRepo :: "string \<Rightarrow> string \<Rightarrow> string"
  isFlag :: "string \<Rightarrow> bool"
  parseFlag :: "string \<Rightarrow> string"
  UserGet :: "string \<Rightarrow> string + User"
  StoredSubscriptions :: "string + (string \<times> Subscription list) list option"
  Subscribe :: "string \<Rightarrow> string \<Rightarrow> string \<Rightarrow> string \<Rightarrow> Features \<Rightarrow> SubscriptionFlags \<Rightarrow> string option"
  SubscribeOrg :: "string \<Rightarrow> string \<Rightarrow> string \<Rightarrow> Features \<Rightarrow> SubscriptionFlags \<Rightarrow> string option"
  Unsubscribe :: "string \<Rightarrow> string \<Rightarrow> string \<Rightarrow> string option"
  CreatePost :: "string \<Rightarrow> string \<Rightarrow> string \<Rightarrow> string option"
  RepositoriesGet :: "string \<Rightarrow> string \<Rightarrow> string + GithubRepository option"
  checkIfConfiguredWebhookExists :: "string \<Rightarrow> string \<Rightarrow> bool \<times> string option"

text \<open>\<open>createPost\<close> (command.go, lines 345-358): the post and the error it returns.\<close>

definition createPost :: "Env \<Rightarrow> string \<Rightarrow> string \<Rightarrow> string \<Rightarrow> string option \<times> Call list" where
  "createPost env channelID userID message =
     (CreatePost env channelID userID message, [CreatePostCall channelID userID message])"

section \<open>Subscription flags (subscription.go, lines 1255-1306)\<close>

text \<open>
  \<open>strconv.ParseBool\<close> accepts \<open>1, t, T, TRUE, true, True\<close> and
  \<open>0, f, F, FALSE, false, False\<close>; any other value is a syntax error (\<open>None\<close>).
\<close>

definition ParseBool :: "string \<Rightarrow> bool option" where
  "ParseBool str =
     (if str \<in> set [''1'', ''t'', ''T'', ''TRUE'', ''true'', ''True''] then Some True
      else if str \<in> set [''0'', ''f'', ''F'', ''FALSE'', ''false'', ''False''] then Some False
      else None)"

text \<open>
  \<open>AddFlag\<close> updates the flags in place and returns an error; the model returns the
  updated flags, or the error of \<open>ParseBool\<close> with the value it refused (the flags
  are then unchanged). A flag name it does not know is ignored.
\<close>

datatype AddFlagError = ErrSyntax string

definition AddFlag ::
  "Env \<Rightarrow> SubscriptionFlags \<Rightarrow> string \<Rightarrow> string \<Rightarrow> AddFlagError + SubscriptionFlags" where
  "AddFlag env s flag v =
     (if flag = flagExcludeOrgMember then
        (case ParseBool v of
           None \<Rightarrow> Inl (ErrSyntax v)
         | Some parsed \<Rightarrow> Inr (s\<lparr>ExcludeOrgMembers := parsed\<rparr>))
      else if flag = flagIncludeOnlyOrgMembers then
        (case ParseBool v of
           None \<Rightarrow> Inl (ErrSyntax v)
         | Some parsed \<Rightarrow> Inr (s\<lparr>IncludeOnlyOrgMembers := parsed\<rparr>))
      else if flag = flagRenderStyle then Inr (s\<lparr>RenderStyle := v\<rparr>)
      else if flag = flagExcludeRepository then
        Inr (s\<lparr>ExcludeRepository := map (TrimSpace env) (Split v (CHR '',''))\<rparr>)
      else Inr s)"

text \<open>\<open>SubscriptionFlags.String\<close>: the set flags as they are typed, joined by commas.\<close>

definition FlagsString :: "SubscriptionFlags \<Rightarrow> string" where
  "FlagsString s =
     (let flags = [];
          flags = (if ExcludeOrgMembers s
                   then flags @ [''--'' @ flagExcludeOrgMember @ '' true''] else flags);
          flags = (if IncludeOnlyOrgMembers s
                   then flags @ [''--'' @ flagIncludeOnlyOrgMembers @ '' true''] else flags);
          flags = (if RenderStyle s \<noteq> []
                   then flags @ [''--'' @ flagRenderStyle @ '' '' @ RenderStyle s] else flags);
          flags = (if length (ExcludeRepository s) > 0
                   then flags @ [''--'' @ flagExcludeRepository @ '' ''
                                   @ Join (ExcludeRepository s) '','']
                   else flags)
      in Join flags '','')"

section \<open>Reading the subscriptions (subscription.go, lines 1495-1519 and 1555-1569)\<close>

text \<open>
  \<open>errors.Wrap(err, message)\<close> gives an error whose text is the message, a colon and
  a space, and the text of \<open>err\<close>.
\<close>

definition Wrap :: "string \<Rightarrow> string \<Rightarrow> string" where
  "Wrap err message = message @ '': '' @ err"

text \<open>\<open>GetSubscriptions\<close>: the stored aggregate, empty when nothing is stored.\<close>

definition GetSubscriptions :: "Env \<Rightarrow> string + (string \<times> Subscription list) list" where
  "GetSubscriptions env =
     (case StoredSubscriptions env of
        Inl err \<Rightarrow> Inl (Wrap err ''could not get subscriptions from KVStore'')
      | Inr None \<Rightarrow> Inr []
      | Inr (Some subscriptions) \<Rightarrow> Inr subscriptions)"

text \<open>
  The two loops of \<open>GetSubscriptionsByChannel\<close>: over the subscriptions \<open>v\<close> of a
  repository key \<open>repo\<close>, and over the entries of the map. A subscription of the
  channel whose \<open>Repository\<close> is empty gets the key as its \<open>Repository\<close> ("this is
  needed to be backwards compatible") and is appended to \<open>filteredSubs\<close>.
\<close>

fun GetSubscriptionsByChannel_subs :: "string \<Rightarrow> string \<Rightarrow> Subscription list \<Rightarrow> Subscription list" where
  "GetSubscriptionsByChannel_subs channelID repo [] = []"
| "GetSubscriptionsByChannel_subs channelID repo (s # v) =
     (if ChannelID s = channelID then
        (if length (Repository s) = 0 then s\<lparr>Repository := repo\<rparr> else s)
          # GetSubscriptionsByChannel_subs channelID repo v
      else GetSubscriptionsByChannel_subs channelID repo v)"

fun GetSubscriptionsByChannel_loop ::
  "string \<Rightarrow> (string \<times> Subscription list) list \<Rightarrow> Subscription list" where
  "GetSubscriptionsByChannel_loop channelID [] = []"
| "GetSubscriptionsByChannel_loop channelID ((repo, v) # repositories) =
     GetSubscriptionsByChannel_subs channelID repo v
       @ GetSubscriptionsByChannel_loop channelID repositories"

text \<open>
  The comparison given to \<open>sort.Slice\<close>; Go compares strings byte by byte, which is
  the lexicographic order of \<open>char list\<close>.
\<close>

definition lessRepository :: "Subscription \<Rightarrow> Subscription \<Rightarrow> bool" where
  "lessRepository a b \<longleftrightarrow> Repository a < Repository b"

definition GetSubscriptionsByChannel :: "Env \<Rightarrow> string \<Rightarrow> string + Subscription list" where
  "GetSubscriptionsByChannel env channelID =
     (case GetSubscriptions env of
        Inl err \<Rightarrow> Inl (Wrap err ''could not get subscriptions'')
      | Inr repositories \<Rightarrow>
          Inr (sortSlice env lessRepository
                 (GetSubscriptionsByChannel_loop channelID repositories)))"

text \<open>
  What the documentation of \<open>sort.Slice\<close> promises for this comparison: the result
  is a rearrangement of the slice in ascending order of \<open>Repository\<close>. The order of
  subscriptions with equal \<open>Repository\<close> is left open.
\<close>

definition sortsByRepository ::
  "((Subscription \<Rightarrow> Subscription \<Rightarrow> bool) \<Rightarrow> Subscription list \<Rightarrow> Subscription list) \<Rightarrow> bool" where
  "sortsByRepository srt \<longleftrightarrow>
     (\<forall>xs. mset (srt lessRepository xs) = mset xs
           \<and> sorted (map Repository (srt lessRepository xs)))"

section \<open>handleUnsubscribe (command.go, lines 588-635)\<close>

definition handleUnsubscribe :: "Env \<Rightarrow> CommandArgs \<Rightarrow> string list \<Rightarrow> string \<times> Call list" where
  "handleUnsubscribe env args parameters =
     (if length parameters = 0 then (''Please specify a repository.'', [])
      else
        case parseOwnerAndRepo env (parameters ! 0) (getBaseURL env) of
          (owner0, repo0) \<Rightarrow>
            if owner0 = [] \<and> repo0 = [] then (''invalid repository'', [])
            else
              let owner = ToLower env owner0;
                  repo = ToLower env repo0;
                  calls = [UnsubscribeCall (ChannelId args) repo owner]
              in case Unsubscribe env (ChannelId args) repo owner of
                   Some err \<Rightarrow>
                     (''Encountered an error trying to unsubscribe. Please try again.'', calls)
                 | None \<Rightarrow>
                     let baseURL = getBaseURL env
                     in case UserGet env (UserId args) of
                          Inl err \<Rightarrow> (''error while fetching user details: '' @ err, calls)
                        | Inr user \<Rightarrow>
                            if repo = [] then
                              (let orgLink = baseURL @ owner;
                                   unsubscribeMessage =
                                     ''@'' @ Username user @ '' unsubscribed this channel from [''
                                       @ owner @ '']('' @ orgLink @ '')''
                               in case createPost env (ChannelId args) (BotUserID env)
                                         unsubscribeMessage of
                                    (Some err, posts) \<Rightarrow>
                                      (unsubscribeMessage @ '' error creating the public post: ''
                                         @ err, calls @ posts)
                                  | (None, posts) \<Rightarrow> ([], calls @ posts))
                            else
                              (let repoLink = baseURL @ owner @ ''/'' @ repo;
                                   unsubscribeMessage =
                                     ''@'' @ Username user @ '' Unsubscribed this channel from [''
                                       @ owner @ ''/'' @ repo @ '']('' @ repoLink @ '')''
                                     @ [CHR 0x0A] @ '' Please delete the [webhook]('' @ repoLink
                                       @ ''/settings/hooks''
                                       @ '') for this subscription unless it's required for other subscriptions.''
                               in case createPost env (ChannelId args) (BotUserID env)
                                         unsubscribeMessage of
                                    (Some err, posts) \<Rightarrow>
                                      (unsubscribeMessage @ '' error creating the public post: ''
                                         @ err, calls @ posts)
                                  | (None, posts) \<Rightarrow> ([], calls @ posts)))"

section \<open>handleSetDefaultRepo (command.go, lines 785-824)\<close>

text \<open>\<open>fmt.Sprintf(DefaultRepoKey, channelID, userID)\<close> with the format \<open>%s_%s-default-repo\<close>.\<close>

definition DefaultRepoKey :: "string \<Rightarrow> string \<Rightarrow> string" where
  "DefaultRepoKey channelID userID = channelID @ ''_'' @ userID @ ''-default-repo''"

definition handleSetDefaultRepo ::
  "Env \<Rightarrow> KvStore \<Rightarrow> CommandArgs \<Rightarrow> string list \<Rightarrow> GitHubUserInfo \<Rightarrow> string \<times> KvStore" where
  "handleSetDefaultRepo env s args parameters userInfo =
     (if length parameters = 0 then (''Please specify a repository.'', s)
      else
        let baseURL = getBaseURL env
        in case parseOwnerAndRepo env (parameters ! 0) baseURL of
             (owner0, repo0) \<Rightarrow>
               if owner0 = [] \<or> repo0 = [] then (''Please provide a valid repository'', s)
               else
                 let owner = ToLower env owner0;
                     repo = ToLower env repo0
                 in if GitHubOrg env \<noteq> [] \<and> ToLower env (GitHubOrg env) \<noteq> owner then
                      (''Repository is not part of the locked Github organization. Locked Github organization: ''
                         @ GitHubOrg env, s)
                    else
                      case RepositoriesGet env owner repo of
                        Inl err \<Rightarrow> (''Error occurred while getting github repository details'', s)
                      | Inr None \<Rightarrow>
                          (''Unknown repository '' @ fullNameFromOwnerAndRepo env owner repo, s)
                      | Inr (Some ghRepo) \<Rightarrow>
                          (case store_Set s (DefaultRepoKey (ChannelId args) (UserID userInfo))
                                  (owner @ ''/'' @ repo) of
                             (Some err, s') \<Rightarrow> (''Error occurred saving the default repo'', s')
                           | (None, s') \<Rightarrow>
                               (let repoLink = baseURL @ owner @ ''/'' @ repo
                                in (''The default repo has been set to ['' @ owner @ ''/'' @ repo
                                      @ '']('' @ repoLink @ '') for this channel'', s'))))"

section \<open>A concrete instance of the parameters\<close>

text \<open>
  Modelled from the spec: \<open>parseOwnerAndRepo\<close>, \<open>fullNameFromOwnerAndRepo\<close>,
  \<open>isFlag\<close> and \<open>parseFlag\<close> are not among the sources. The instance below
  is used only to run the handlers on concrete commands. A repository is \<open>owner\<close> or \<open>owner/repo\<close>, as in the spec's
  data model, and a flag is written \<open>--<name>\<close>, as in the handler's error message
  and in \<open>SubscriptionFlags.String\<close>.

  The library functions are instantiated on ASCII text: \<open>asciiToLower\<close> is
  \<open>strings.ToLower\<close> there (a byte in \<open>A..Z\<close>, 65 to 90, gets bit 5 set, which
  adds 32), and \<open>asciiTrimSpace\<close> is \<open>strings.TrimSpace\<close> (the white space of
  ASCII is \<open>\t \n \v \f \r\<close> and the space). \<open>insertionSortLessFunc\<close> is the
  insertion sort that \<open>sort.Slice\<close> runs on a slice of at most 12 elements: each
  element in turn is swapped to the left while it is less than its left neighbour.
  \<open>insertionSort_insert\<close> takes the sorted part in reverse, left neighbour first.
\<close>

definition asciiToLower :: "string \<Rightarrow> string" where
  "asciiToLower s =
     map (\<lambda>c. if (65::nat) \<le> of_char c \<and> of_char c \<le> (90::nat)
               then (case c of Char b0 b1 b2 b3 b4 b5 b6 b7 \<Rightarrow>
                       Char b0 b1 b2 b3 b4 True b6 b7)
               else c) s"

definition asciiSpace :: "char \<Rightarrow> bool" where
  "asciiSpace c \<longleftrightarrow> (of_char c :: nat) \<in> set [0x09, 0x0A, 0x0B, 0x0C, 0x0D, 0x20]"

definition asciiTrimSpace :: "string \<Rightarrow> string" where
  "asciiTrimSpace s = rev (dropWhile asciiSpace (rev (dropWhile asciiSpace s)))"

fun insertionSort_insert :: "('a \<Rightarrow> 'a \<Rightarrow> bool) \<Rightarrow> 'a \<Rightarrow> 'a list \<Rightarrow> 'a list" where
  "insertionSort_insert lessFunc x [] = [x]"
| "insertionSort_insert lessFunc x (y # ys) =
     (if lessFunc x y then y # insertionSort_insert lessFunc x ys else x # y # ys)"

definition insertionSortLessFunc :: "('a \<Rightarrow> 'a \<Rightarrow> bool) \<Rightarrow> 'a list \<Rightarrow> 'a list" where
  "insertionSortLessFunc lessFunc xs =
     rev (foldl (\<lambda>sortedPart x. insertionSort_insert lessFunc x sortedPart) [] xs)"

definition splitOwnerAndRepo :: "string \<Rightarrow> string \<Rightarrow> string \<times> string" where
  "splitOwnerAndRepo full baseURL =
     (case Split full (CHR ''/'') of
        [owner] \<Rightarrow> (owner, [])
      | [owner, repo] \<Rightarrow> (owner, repo)
      | _ \<Rightarrow> ([], []))"

definition exampleEnv :: Env where
  "exampleEnv =
     \<lparr>BotUserID = ''mockBotID'',
      getBaseURL = ''https://github.com/'',
      GitHubOrg = [],
      ToLower = asciiToLower,
      TrimSpace = asciiTrimSpace,
      sortSlice = insertionSortLessFunc,
      parseOwnerAndRepo = splitOwnerAndRepo,
      fullNameFromOwnerAndRepo = (\<lambda>owner repo. owner @ ''/'' @ repo),
      isFlag = (\<lambda>text. HasPrefix text ''--''),
      parseFlag = (\<lambda>flag. if HasPrefix flag ''--'' then drop 2 flag else flag),
      UserGet = (\<lambda>userID. Inr \<lparr>Username = ''alice''\<rparr>),
      StoredSubscriptions = Inr None,
      Subscribe = (\<lambda>userID owner repo channelID features flags. None),
      SubscribeOrg = (\<lambda>userID org channelID features flags. None),
      Unsubscribe = (\<lambda>channelID repo owner. None),
      CreatePost = (\<lambda>channelID userID message. None),
      RepositoriesGet = (\<lambda>owner repo. Inr (Some \<lparr>Private = False\<rparr>)),
      checkIfConfiguredWebhookExists = (\<lambda>repo owner. (True, None))\<rparr>"

section \<open>Listing a channel's subscriptions (command.go, lines 321-343)\<close>

text \<open>\<open>strings.Trim(s, cutset)\<close> for a cutset of one byte.\<close>

definition Trim :: "string \<Rightarrow> char \<Rightarrow> string" where
  "Trim s c = rev (dropWhile (\<lambda>x. x = c) (rev (dropWhile (\<lambda>x. x = c) s)))"

text \<open>One pass of the loop of \<open>handleSubscriptionsList\<close> appends this line to \<open>txt\<close>.\<close>

definition subscriptionLine :: "Subscription \<Rightarrow> string" where
  "subscriptionLine sub =
     (let subFlags = FlagsString (Flags sub);
          txt = ''* `'' @ Trim (Repository sub) (CHR ''/'') @ ''` - '' @ Features sub;
          txt = (if subFlags \<noteq> [] then txt @ '' '' @ subFlags else txt)
      in txt @ [CHR 0x0A])"

fun handleSubscriptionsList_loop :: "Subscription list \<Rightarrow> string \<Rightarrow> string" where
  "handleSubscriptionsList_loop [] txt = txt"
| "handleSubscriptionsList_loop (sub # subs) txt =
     handleSubscriptionsList_loop subs (txt @ subscriptionLine sub)"

definition handleSubscriptionsList :: "Env \<Rightarrow> CommandArgs \<Rightarrow> string" where
  "handleSubscriptionsList env args =
     (case GetSubscriptionsByChannel env (ChannelId args) of
        Inl err \<Rightarrow> err
      | Inr subs \<Rightarrow>
          handleSubscriptionsList_loop subs
            (if length subs = 0 then ''Currently there are no subscriptions in this channel''
             else ''### Subscriptions in this channel'' @ [CHR 0x0A]))"

section \<open>handleSubscribesAdd (command.go, lines 108-121 and 414-586)\<close>

fun SliceContainsString :: "string list \<Rightarrow> string \<Rightarrow> bool" where
  "SliceContainsString [] x = False"
| "SliceContainsString (n # a) x = (if x = n then True else SliceContainsString a x)"

definition checkFeatureConflict :: "string list \<Rightarrow> bool \<times> string list" where
  "checkFeatureConflict fs =
     (if SliceContainsString fs featureIssues \<and> SliceContainsString fs featureIssueCreation
      then (False, [featureIssues, featureIssueCreation])
      else if SliceContainsString fs featurePulls \<and> SliceContainsString fs featurePullsMerged
      then (False, [featurePulls, featurePullsMerged])
      else if SliceContainsString fs featurePulls \<and> SliceContainsString fs featurePullsCreated
      then (False, [featurePulls, featurePullsCreated])
      else (True, []))"

text \<open>\<open>getSubscribedFeatures\<close> (lines 566-586): the features of the first match.\<close>

fun getSubscribedFeatures_loop :: "Subscription list \<Rightarrow> string \<Rightarrow> string \<Rightarrow> Features" where
  "getSubscribedFeatures_loop [] owner repo = []"
| "getSubscribedFeatures_loop (sub # subs) owner repo =
     (let fullRepoName = (if owner \<noteq> [] then owner @ ''/'' @ repo else repo)
      in if Repository sub = fullRepoName then Features sub
         else getSubscribedFeatures_loop subs owner repo)"

definition getSubscribedFeatures :: "Env \<Rightarrow> string \<Rightarrow> string \<Rightarrow> string \<Rightarrow> string + Features" where
  "getSubscribedFeatures env channelID owner repo =
     (case GetSubscriptionsByChannel env channelID of
        Inl err \<Rightarrow> Inl err
      | Inr subs \<Rightarrow> Inr (getSubscribedFeatures_loop subs owner repo))"

definition flagFormatError :: string where
  "flagFormatError = ''Please use the correct format for flags: --<name> <value>''"

text \<open>
  The loop over the flag parameters, two at a time, on the state
  \<open>(subscriptionEvents, flags)\<close>; \<open>Inl\<close> is the reply of an early return. The loop
  runs on a list of even length only, so the case of one remaining parameter (where
  \<open>flagParams[i+1]\<close> would be out of range) is never reached.
\<close>

fun handleSubscribesAdd_flagLoop ::
  "Env \<Rightarrow> string list \<Rightarrow> Features \<times> SubscriptionFlags \<Rightarrow> string + Features \<times> SubscriptionFlags" where
  "handleSubscribesAdd_flagLoop env (flag # v # rest) (subscriptionEvents, flags) =
     (if \<not> isFlag env flag then Inl flagFormatError
      else
        let parsedFlag = parseFlag env flag
        in if parsedFlag = flagFeatures then handleSubscribesAdd_flagLoop env rest (v, flags)
           else case AddFlag env flags parsedFlag v of
                  Inl err \<Rightarrow> Inl (''Unsupported value for flag '' @ flag)
                | Inr flags' \<Rightarrow> handleSubscribesAdd_flagLoop env rest (subscriptionEvents, flags'))"
| "handleSubscribesAdd_flagLoop env rest st = Inr st"

text \<open>The block \<open>if len(parameters) > 1 { ... }\<close> (lines 424-467).\<close>

definition labelBaseError :: string where
  "labelBaseError =
     ''Feature list must have '' @ [CHR 0x22] @ ''pulls'' @ [CHR 0x22] @ '', '' @ [CHR 0x22]
       @ ''issues'' @ [CHR 0x22] @ '' or '' @ [CHR 0x22] @ ''issue_creations'' @ [CHR 0x22]
       @ '' when using a label.''"

definition handleSubscribesAdd_flags ::
  "Env \<Rightarrow> string list \<Rightarrow> Features \<Rightarrow> string + Features \<times> SubscriptionFlags" where
  "handleSubscribesAdd_flags env flagParams subscriptionEvents0 =
     (if length flagParams mod 2 \<noteq> 0 then Inl flagFormatError
      else
        case handleSubscribesAdd_flagLoop env flagParams (subscriptionEvents0, emptyFlags) of
          Inl msg \<Rightarrow> Inl msg
        | Inr (subscriptionEvents, flags) \<Rightarrow>
            let fs = ToSlice subscriptionEvents
            in case checkFeatureConflict fs of
                 (ok, conflictingFs) \<Rightarrow>
                   if \<not> ok then
                     (if length conflictingFs = 2 then
                        Inl (''Feature list cannot contain both '' @ conflictingFs ! 0
                               @ '' and '' @ conflictingFs ! 1)
                      else Inl (''Conflicting feature(s) provided: '' @ Join conflictingFs '',''))
                   else
                     case validateFeatures fs of
                       (ok, ifs) \<Rightarrow>
                         if \<not> ok then
                           Inl (if length ifs = 0 then labelBaseError
                                else ''Invalid feature(s) provided: '' @ Join ifs '','')
                         else Inr (subscriptionEvents, flags))"

definition errorNoWebhookFound :: string where
  "errorNoWebhookFound =
     [CHR 0x0A] @ ''**Note:** No webhook was found for this repository or organization. To create one, enter the following slash command `/github setup webhook`''"

definition excludeRepositoryError :: string where
  "excludeRepositoryError =
     ''Exclude repository feature is only available to subscriptions of an organization.''"

definition privateRepositoryWarning :: string where
  "privateRepositoryWarning =
     [CHR 0x0A, CHR 0x0A] @ ''**Warning:** You subscribed to a private repository. Anyone with access to this channel will be able to read the events getting posted here.''"

text \<open>The reply after the public post, from the webhook check (lines 504-516, 550-563).\<close>

definition webhookReply :: "Env \<Rightarrow> string \<Rightarrow> string \<Rightarrow> string \<Rightarrow> string" where
  "webhookReply env repo owner msg =
     (case checkIfConfiguredWebhookExists env repo owner of
        (found, Some err) \<Rightarrow>
          if Contains err ''404 Not Found'' then []
          else ''failed to get the list of webhooks: '' @ err
      | (found, None) \<Rightarrow> if \<not> found then errorNoWebhookFound else msg)"

text \<open>The branch \<open>if repo == ""\<close> (lines 487-517): a subscription to an organization.\<close>

definition handleSubscribesAdd_org ::
  "Env \<Rightarrow> CommandArgs \<Rightarrow> User \<Rightarrow> string \<Rightarrow> string \<Rightarrow> Features \<Rightarrow> SubscriptionFlags \<Rightarrow>
   Features \<Rightarrow> string \<Rightarrow> string \<times> Call list" where
  "handleSubscribesAdd_org env args user owner repo subscriptionEvents flags
       previousSubscribedEvents previousSubscribedEventMessage =
     (let calls = [SubscribeOrgCall (UserId args) owner (ChannelId args) subscriptionEvents flags]
      in case SubscribeOrg env (UserId args) owner (ChannelId args) subscriptionEvents flags of
           Some err \<Rightarrow> (''failed to get the subscribed org: '' @ err, calls)
         | None \<Rightarrow>
             let orgLink = getBaseURL env @ owner;
                 subscriptionSuccess =
                   ''@'' @ Username user @ '' subscribed this channel to ['' @ owner @ '']('' @ orgLink
                     @ '') with the following events: '' @ FormattedString subscriptionEvents @ ''.'';
                 subscriptionSuccess =
                   (if previousSubscribedEvents \<noteq> []
                    then subscriptionSuccess @ previousSubscribedEventMessage
                    else subscriptionSuccess)
             in case createPost env (ChannelId args) (BotUserID env) subscriptionSuccess of
                  (Some err, posts) \<Rightarrow>
                    (subscriptionSuccess @ '' error creating the public post: '' @ err, calls @ posts)
                | (None, posts) \<Rightarrow>
                    (webhookReply env repo owner
                       (''Successfully subscribed to organization '' @ owner @ ''.''),
                     calls @ posts))"

text \<open>
  The rest of the function for a repository (lines 523-563). \<open>useGitHubClient\<close>
  (plugin.go, lines 1204-1215) runs the callback once and returns its error, which
  the handler only logs; the callback adds the warning when the repository is
  private. For an error of a revoked token \<open>useGitHubClient\<close> also disconnects
  the user's account and tells the user so; that is not part of the reply and is
  not among the calls recorded here.
\<close>

definition handleSubscribesAdd_repo ::
  "Env \<Rightarrow> CommandArgs \<Rightarrow> User \<Rightarrow> string \<Rightarrow> string \<Rightarrow> Features \<Rightarrow> SubscriptionFlags \<Rightarrow>
   Features \<Rightarrow> string \<Rightarrow> string \<times> Call list" where
  "handleSubscribesAdd_repo env args user owner repo subscriptionEvents flags
       previousSubscribedEvents previousSubscribedEventMessage =
     (let calls = [SubscribeCall (UserId args) owner repo (ChannelId args) subscriptionEvents flags]
      in case Subscribe env (UserId args) owner repo (ChannelId args) subscriptionEvents flags of
           Some err \<Rightarrow> (''failed to create a subscription: '' @ err, calls)
         | None \<Rightarrow>
             let repoLink = getBaseURL env @ owner @ ''/'' @ repo;
                 msg = ''@'' @ Username user @ '' subscribed this channel to ['' @ owner @ ''/'' @ repo
                         @ '']('' @ repoLink @ '') with the following events: ''
                         @ FormattedString subscriptionEvents;
                 msg = (if previousSubscribedEvents \<noteq> []
                        then msg @ previousSubscribedEventMessage else msg);
                 msg = (case RepositoriesGet env owner repo of
                          Inr (Some ghRepo) \<Rightarrow>
                            if Private ghRepo then msg @ privateRepositoryWarning else msg
                        | _ \<Rightarrow> msg)
             in case createPost env (ChannelId args) (BotUserID env) msg of
                  (Some err, posts) \<Rightarrow>
                    (msg @ [CHR 0x0A] @ ''Error creating the public post: '' @ err, calls @ posts)
                | (None, posts) \<Rightarrow> (webhookReply env repo owner msg, calls @ posts))"

text \<open>
  \<open>handleSubscribesAdd\<close> returns its reply and the calls it made. The user is fetched
  and the channel's earlier subscription looked up before the repository is told from
  an organization; the exclude list is tested only on the repository path.
\<close>

definition handleSubscribesAdd :: "Env \<Rightarrow> CommandArgs \<Rightarrow> string list \<Rightarrow> string \<times> Call list" where
  "handleSubscribesAdd env args parameters =
     (if length parameters = 0 then (''Please specify a repository.'', [])
      else
        case (if length parameters > 1
              then handleSubscribesAdd_flags env (drop 1 parameters) ''pulls,issues,creates,deletes''
              else Inr (''pulls,issues,creates,deletes'', emptyFlags)) of
          Inl msg \<Rightarrow> (msg, [])
        | Inr (subscriptionEvents, flags) \<Rightarrow>
            case UserGet env (UserId args) of
              Inl err \<Rightarrow> (''failed to get the user: '' @ err, [])
            | Inr user \<Rightarrow>
                case parseOwnerAndRepo env (parameters ! 0) (getBaseURL env) of
                  (owner, repo) \<Rightarrow>
                    case getSubscribedFeatures env (ChannelId args) owner repo of
                      Inl err \<Rightarrow> (''failed to get the subscribed events: '' @ err, [])
                    | Inr previousSubscribedEvents \<Rightarrow>
                        let previousSubscribedEventMessage =
                              (if previousSubscribedEvents \<noteq> [] then
                                 [CHR 0x0A] @ ''The previous subscription with: ''
                                   @ FormattedString previousSubscribedEvents
                                   @ '' was overwritten.'' @ [CHR 0x0A]
                               else [])
                        in if repo = [] then
                             handleSubscribesAdd_org env args user owner repo subscriptionEvents
                               flags previousSubscribedEvents previousSubscribedEventMessage
                           else if length (ExcludeRepository flags) > 0 then
                             (excludeRepositoryError, [])
                           else
                             handleSubscribesAdd_repo env args user owner repo subscriptionEvents
                               flags previousSubscribedEvents previousSubscribedEventMessage)"


section \<open>Properties of validateFeatures\<close>

lemmas feature_defs =
  featureIssueCreation_def featureIssues_def featurePulls_def featurePullsMerged_def
  featurePullsCreated_def featurePushes_def featureCreates_def featureDeletes_def
  featureIssueComments_def featurePullReviews_def featureStars_def featureReleases_def
  featureWorkflowFailure_def featureWorkflowSuccess_def featureDiscussions_def
  featureDiscussionComments_def

lemma validFeatures_dom:
  "dom validFeatures =
     {''issue_creations'', ''issues'', ''pulls'', ''pulls_merged'', ''pulls_created'',
      ''pushes'', ''creates'', ''deletes'', ''issue_comments'', ''pull_reviews'', ''stars'',
      ''releases'', ''workflow_failure'', ''workflow_success'', ''discussions'',
      ''discussion_comments''}"
  unfolding validFeatures_def validFeaturesEntries_def feature_defs dom_map_of_conv_image_fst
  by (simp add: insert_commute)

lemma validFeatures_not_label: "validFeatures f \<noteq> None \<Longrightarrow> \<not> HasPrefix f ''label''"
proof -
  assume "validFeatures f \<noteq> None"
  then have "f \<in> dom validFeatures" by auto
  then show ?thesis
    unfolding validFeatures_dom by (auto simp: HasPrefix_def)
qed

lemma validateFeatures_labelBase_iff:
  "validateFeatures_labelBase fs \<longleftrightarrow>
     featurePulls \<in> set fs \<or> featureIssues \<in> set fs \<or> featureIssueCreation \<in> set fs"
  by (induction fs) auto

text \<open>What the first loop computes, for any starting state.\<close>

lemma validateFeatures_scan_eq:
  "validateFeatures_scan fs (valid, bad, hasLabel) =
     (valid \<and> (\<forall>f\<in>set fs. validFeatures f \<noteq> None \<or> HasPrefix f ''label''),
      bad @ filter (\<lambda>f. validFeatures f = None \<and> \<not> HasPrefix f ''label'') fs,
      hasLabel \<or> (\<exists>f\<in>set fs. validFeatures f = None \<and> HasPrefix f ''label''))"
  by (induction fs arbitrary: valid bad hasLabel) auto

lemma validateFeatures_snd:
  "snd (validateFeatures fs) =
     filter (\<lambda>f. validFeatures f = None \<and> \<not> HasPrefix f ''label'') fs"
  by (simp add: validateFeatures_def validateFeatures_scan_eq)

lemma validateFeatures_fst:
  "fst (validateFeatures fs) \<longleftrightarrow>
     (\<forall>f\<in>set fs. validFeatures f \<noteq> None \<or> HasPrefix f ''label'') \<and>
     ((\<exists>f\<in>set fs. HasPrefix f ''label'') \<longrightarrow>
        featurePulls \<in> set fs \<or> featureIssues \<in> set fs \<or> featureIssueCreation \<in> set fs)"
  using validFeatures_not_label
  by (auto simp: validateFeatures_def validateFeatures_scan_eq validateFeatures_labelBase_iff)

text \<open>
  Claim C2. Let some element of the feature list start with \<open>label\<close>. If the list
  contains none of \<open>issues\<close>, \<open>pulls\<close>, \<open>issue_creations\<close>, then
  \<open>validateFeatures\<close> returns \<open>valid = false\<close>; if every element that does not start
  with \<open>label\<close> is a valid feature name and at least one of the three is present, it
  returns \<open>valid = true\<close>.
\<close>

theorem validateFeatures_label_requires_base:
  assumes "\<exists>f\<in>set fs. HasPrefix f ''label''"
  shows "(featureIssues \<notin> set fs \<and> featurePulls \<notin> set fs \<and> featureIssueCreation \<notin> set fs
            \<longrightarrow> fst (validateFeatures fs) = False)
       \<and> ((\<forall>f\<in>set fs. \<not> HasPrefix f ''label'' \<longrightarrow> validFeatures f \<noteq> None)
            \<and> (featureIssues \<in> set fs \<or> featurePulls \<in> set fs \<or> featureIssueCreation \<in> set fs)
            \<longrightarrow> fst (validateFeatures fs) = True)"
  using assms by (auto simp: validateFeatures_fst)

theorem validateFeatures_label_requires_base_witness:
  "(\<exists>f\<in>set [''pushes'', ''label:ruby'']. HasPrefix f ''label'')
   \<and> fst (validateFeatures [''pushes'', ''label:ruby'']) = False
   \<and> (\<exists>f\<in>set [''issues'', ''label:ruby'']. HasPrefix f ''label'')
   \<and> fst (validateFeatures [''issues'', ''label:ruby'']) = True"
proof -
  have h1: "\<exists>f\<in>set [''pushes'', ''label:ruby'']. HasPrefix f ''label''"
    by (simp add: HasPrefix_def)
  have h2: "\<exists>f\<in>set [''issues'', ''label:ruby'']. HasPrefix f ''label''"
    by (simp add: HasPrefix_def)
  have v: "validFeatures ''issues'' \<noteq> None"
    by (simp add: validFeatures_def validFeaturesEntries_def feature_defs)
  have l: "HasPrefix ''label:ruby'' ''label''"
    by (simp add: HasPrefix_def)
  have "fst (validateFeatures [''pushes'', ''label:ruby'']) = False"
    using validateFeatures_label_requires_base [OF h1] by (simp add: feature_defs)
  moreover have "fst (validateFeatures [''issues'', ''label:ruby'']) = True"
    using validateFeatures_label_requires_base [OF h2] v l by (simp add: feature_defs)
  ultimately show ?thesis using h1 h2 by blast
qed

text \<open>
  Claim C6. The valid feature categories are a closed set of exactly 16 names, and for
  every feature of the input that does not start with \<open>label\<close>, \<open>validateFeatures\<close>
  lists it among the invalid features if and only if it is not one of the 16; a
  non-empty list of invalid features comes with \<open>valid = false\<close>.
\<close>

theorem validateFeatures_closed_feature_set:
  "card (dom validFeatures) = 16
   \<and> dom validFeatures =
       {''issue_creations'', ''issues'', ''pulls'', ''pulls_merged'', ''pulls_created'',
        ''pushes'', ''creates'', ''deletes'', ''issue_comments'', ''pull_reviews'', ''stars'',
        ''releases'', ''workflow_failure'', ''workflow_success'', ''discussions'',
        ''discussion_comments''}
   \<and> (\<forall>f\<in>set fs. \<not> HasPrefix f ''label'' \<longrightarrow>
         (f \<in> set (snd (validateFeatures fs)) \<longleftrightarrow>
          f \<notin> {''issue_creations'', ''issues'', ''pulls'', ''pulls_merged'', ''pulls_created'',
                ''pushes'', ''creates'', ''deletes'', ''issue_comments'', ''pull_reviews'',
                ''stars'', ''releases'', ''workflow_failure'', ''workflow_success'',
                ''discussions'', ''discussion_comments''}))
   \<and> (snd (validateFeatures fs) \<noteq> [] \<longrightarrow> fst (validateFeatures fs) = False)"
proof -
  have c: "card (dom validFeatures) = 16"
    unfolding validFeatures_dom by simp
  have m: "\<forall>f\<in>set fs. \<not> HasPrefix f ''label'' \<longrightarrow>
             (f \<in> set (snd (validateFeatures fs)) \<longleftrightarrow> f \<notin> dom validFeatures)"
    by (auto simp: validateFeatures_snd)
  have e: "snd (validateFeatures fs) \<noteq> [] \<longrightarrow> fst (validateFeatures fs) = False"
    by (auto simp: validateFeatures_snd validateFeatures_fst filter_empty_conv)
  show ?thesis
    using c m e unfolding validFeatures_dom by blast
qed

theorem validateFeatures_closed_feature_set_witness:
  "''push'' \<in> set [''creates'', ''push''] \<and> \<not> HasPrefix ''push'' ''label''
   \<and> ''push'' \<in> set (snd (validateFeatures [''creates'', ''push'']))
   \<and> ''creates'' \<notin> set (snd (validateFeatures [''creates'', ''push'']))
   \<and> fst (validateFeatures [''creates'', ''push'']) = False"
proof -
  have p: "\<not> HasPrefix ''push'' ''label''" and q: "\<not> HasPrefix ''creates'' ''label''"
    by (simp_all add: HasPrefix_def)
  have n: "snd (validateFeatures [''creates'', ''push'']) \<noteq> []
           \<Longrightarrow> fst (validateFeatures [''creates'', ''push'']) = False"
    using validateFeatures_closed_feature_set [of "[''creates'', ''push'']"] by blast
  have a: "''push'' \<in> set (snd (validateFeatures [''creates'', ''push'']))"
    using validateFeatures_closed_feature_set [of "[''creates'', ''push'']"] p by simp
  have b: "''creates'' \<notin> set (snd (validateFeatures [''creates'', ''push'']))"
    using validateFeatures_closed_feature_set [of "[''creates'', ''push'']"] q by simp
  from a have "snd (validateFeatures [''creates'', ''push'']) \<noteq> []" by auto
  with n a b p show ?thesis by simp
qed

section \<open>Properties of parseCommand\<close>

text \<open>
  The loop keeps \<open>current\<close> non-empty while inside quotes, and under that invariant
  the final token list is empty exactly when nothing was collected before and every
  remaining rune is white space.
\<close>

lemma parseCommand_loop_empty_iff:
  assumes "inQuotes \<longrightarrow> current \<noteq> []"
  shows "parseCommand_finish (parseCommand_loop input (split, current, inQuotes)) = []
         \<longleftrightarrow> split = [] \<and> current = [] \<and> (\<forall>c\<in>set input. IsSpace c)"
  using assms
proof (induction input arbitrary: split current inQuotes)
  case Nil
  then show ?case by (simp add: parseCommand_finish_def)
next
  case (Cons char rest)
  show ?case
  proof (cases "IsSpace char")
    case space: True
    show ?thesis
    proof (cases inQuotes)
      case True
      then have "current \<noteq> []" using Cons.prems by simp
      then show ?thesis
        using space True Cons.IH [of True "current @ [0x20]" split] by simp
    next
      case False
      show ?thesis
      proof (cases "current = []")
        case True
        then show ?thesis
          using space \<open>\<not> inQuotes\<close> Cons.IH [of False "[]" split] by simp
      next
        case False
        then show ?thesis
          using space \<open>\<not> inQuotes\<close> Cons.IH [of False "[]" "split @ [current]"] by simp
      qed
    qed
  next
    case False
    then show ?thesis
      using Cons.IH [of "if char = 0x22 then \<not> inQuotes else inQuotes" "current @ [char]" split]
      by simp
  qed
qed

lemma parseCommand_split_empty_iff:
  "parseCommand_split input = [] \<longleftrightarrow> (\<forall>c\<in>set input. IsSpace c)"
  unfolding parseCommand_split_def
  using parseCommand_loop_empty_iff [of False "[]" input "[]"] by simp

lemma parseCommand_None_iff:
  "parseCommand input = None \<longleftrightarrow> (\<forall>c\<in>set input. IsSpace c)"
proof -
  have "parseCommand input = None \<longleftrightarrow> parseCommand_split input = []"
    by (simp add: parseCommand_def Let_def split: list.splits)
  then show ?thesis by (simp add: parseCommand_split_empty_iff)
qed

text \<open>
  Claim C8. \<open>parseCommand\<close> is not total: on the empty input and on every input of
  white space only the token list is empty and \<open>split[0]\<close> is out of bounds (the
  model returns \<open>None\<close> on exactly these inputs); on every input with a rune that is
  not white space the access is in bounds. \<open>ExecuteCommand\<close> calls \<open>parseCommand\<close>
  on the raw command, so it panics on the same inputs and on no other.
\<close>

theorem parseCommand_panics_iff_blank:
  "parseCommand [] = None
   \<and> (parseCommand_split input = [] \<longleftrightarrow> (\<forall>c\<in>set input. IsSpace c))
   \<and> (parseCommand input = None \<longleftrightarrow> (\<forall>c\<in>set input. IsSpace c))
   \<and> ((\<exists>c\<in>set input. \<not> IsSpace c) \<longrightarrow>
        0 < length (parseCommand_split input)
        \<and> (\<exists>action parameters.
              parseCommand input = Some (parseCommand_split input ! 0, action, parameters)))
   \<and> (ExecuteCommand dispatch input = None \<longleftrightarrow> (\<forall>c\<in>set input. IsSpace c))"
proof -
  have a: "parseCommand [] = None"
    using parseCommand_None_iff [of "[]"] by simp
  have b: "(\<exists>c\<in>set input. \<not> IsSpace c) \<longrightarrow>
        0 < length (parseCommand_split input)
        \<and> (\<exists>action parameters.
              parseCommand input = Some (parseCommand_split input ! 0, action, parameters))"
  proof
    assume "\<exists>c\<in>set input. \<not> IsSpace c"
    then have "parseCommand_split input \<noteq> []"
      by (simp add: parseCommand_split_empty_iff)
    then obtain command ts where "parseCommand_split input = command # ts"
      by (cases "parseCommand_split input") auto
    then show "0 < length (parseCommand_split input)
        \<and> (\<exists>action parameters.
              parseCommand input = Some (parseCommand_split input ! 0, action, parameters))"
      by (simp add: parseCommand_def Let_def)
  qed
  have c: "ExecuteCommand dispatch input = None \<longleftrightarrow> parseCommand input = None"
    by (auto simp: ExecuteCommand_def split: option.splits)
  show ?thesis
    using a b c parseCommand_split_empty_iff [of input] parseCommand_None_iff [of input]
    by simp
qed

theorem parseCommand_panics_iff_blank_witness:
  "list_all IsSpace (runes ''  '')
   \<and> parseCommand (runes ''  '') = None
   \<and> ExecuteCommand (\<lambda>action parameters. ()) (runes ''  '') = None
   \<and> (\<exists>c\<in>set (runes '' /github todo''). \<not> IsSpace c)
   \<and> parseCommand (runes '' /github todo'') \<noteq> None
   \<and> 0 < length (parseCommand_split (runes '' /github todo''))"
proof -
  have s: "\<forall>c\<in>set (runes ''  ''). IsSpace c"
    by (simp add: runes_def IsSpace_def)
  have n: "\<exists>c\<in>set (runes '' /github todo''). \<not> IsSpace c"
    by (simp add: runes_def IsSpace_def)
  have l: "list_all IsSpace (runes ''  '')"
    using s by (simp add: list_all_iff)
  show ?thesis
    using s n l
      parseCommand_panics_iff_blank [of "runes ''  ''" "\<lambda>action parameters. ()"]
      parseCommand_panics_iff_blank [of "runes '' /github todo''" "\<lambda>action parameters. ()"]
    by blast
qed

section \<open>Properties of the muted-users record\<close>























section \<open>Lower-cased repository keys\<close>

lemma handleUnsubscribe_calls:
  assumes "parameters \<noteq> []"
    and "parseOwnerAndRepo env (parameters ! 0) (getBaseURL env) = (owner, repo)"
    and "\<not> (owner = [] \<and> repo = [])"
  shows "\<exists>rest. snd (handleUnsubscribe env args parameters) =
            UnsubscribeCall (ChannelId args) (ToLower env repo) (ToLower env owner) # rest
          \<and> (\<forall>c\<in>set rest. \<exists>ch u m. c = CreatePostCall ch u m)"
  using assms
  by (auto simp: handleUnsubscribe_def Let_def createPost_def split: option.splits sum.splits)

lemma handleSetDefaultRepo_sets:
  assumes "parameters \<noteq> []"
    and "parseOwnerAndRepo env (parameters ! 0) (getBaseURL env) = (owner, repo)"
  shows "sets (snd (handleSetDefaultRepo env s args parameters userInfo)) = sets s
       \<or> sets (snd (handleSetDefaultRepo env s args parameters userInfo)) =
           sets s @ [(DefaultRepoKey (ChannelId args) (UserID userInfo),
                      ToLower env owner @ ''/'' @ ToLower env repo)]"
  using assms
  by (auto simp: handleSetDefaultRepo_def Let_def store_Set_def split: option.splits sum.splits)

lemma handleSetDefaultRepo_stores:
  assumes "parameters \<noteq> []"
    and "parseOwnerAndRepo env (parameters ! 0) (getBaseURL env) = (owner, repo)"
    and "owner \<noteq> []" "repo \<noteq> []"
    and "GitHubOrg env = [] \<or> ToLower env (GitHubOrg env) = ToLower env owner"
    and "RepositoriesGet env (ToLower env owner) (ToLower env repo) = Inr (Some ghRepo)"
  shows "sets (snd (handleSetDefaultRepo env s args parameters userInfo)) =
           sets s @ [(DefaultRepoKey (ChannelId args) (UserID userInfo),
                      ToLower env owner @ ''/'' @ ToLower env repo)]"
    and "setErr s = None \<Longrightarrow>
         kv (snd (handleSetDefaultRepo env s args parameters userInfo))
            (DefaultRepoKey (ChannelId args) (UserID userInfo)) =
           Some (ToLower env owner @ ''/'' @ ToLower env repo)"
  using assms
  by (auto simp: handleSetDefaultRepo_def Let_def store_Set_def split: option.splits)

text \<open>
  Claim C5. \<open>handleUnsubscribe\<close> calls \<open>Unsubscribe\<close> with the lower-cased repo
  and owner that \<open>parseOwnerAndRepo\<close> returned, and makes no other call than posts
  after it. Every store write of \<open>handleSetDefaultRepo\<close> is the one of the
  lower-cased \<open>owner/repo\<close> under the channel's default-repo key, and that write is
  made when the repository passes the handler's checks.
\<close>

theorem handlers_lowercase_repository_keys:
  assumes "parameters \<noteq> []"
    and "parseOwnerAndRepo env (parameters ! 0) (getBaseURL env) = (owner, repo)"
  shows "(\<not> (owner = [] \<and> repo = []) \<longrightarrow>
           (\<exists>rest. snd (handleUnsubscribe env args parameters) =
                UnsubscribeCall (ChannelId args) (ToLower env repo) (ToLower env owner) # rest
              \<and> (\<forall>c\<in>set rest. \<exists>ch u m. c = CreatePostCall ch u m)))
       \<and> (sets (snd (handleSetDefaultRepo env s args parameters userInfo)) = sets s
          \<or> sets (snd (handleSetDefaultRepo env s args parameters userInfo)) =
               sets s @ [(DefaultRepoKey (ChannelId args) (UserID userInfo),
                          ToLower env owner @ ''/'' @ ToLower env repo)])
       \<and> (owner \<noteq> [] \<and> repo \<noteq> []
            \<and> (GitHubOrg env = [] \<or> ToLower env (GitHubOrg env) = ToLower env owner)
            \<and> RepositoriesGet env (ToLower env owner) (ToLower env repo) = Inr (Some ghRepo) \<longrightarrow>
            sets (snd (handleSetDefaultRepo env s args parameters userInfo)) =
              sets s @ [(DefaultRepoKey (ChannelId args) (UserID userInfo),
                         ToLower env owner @ ''/'' @ ToLower env repo)]
            \<and> (setErr s = None \<longrightarrow>
                 kv (snd (handleSetDefaultRepo env s args parameters userInfo))
                    (DefaultRepoKey (ChannelId args) (UserID userInfo)) =
                   Some (ToLower env owner @ ''/'' @ ToLower env repo)))"
  using handleUnsubscribe_calls [OF assms, of args]
    handleSetDefaultRepo_sets [OF assms, of s args userInfo]
    handleSetDefaultRepo_stores [OF assms, of ghRepo s args userInfo]
  by blast

theorem handlers_lowercase_repository_keys_witness:
  "[''Acme/Widgets''] \<noteq> []
   \<and> parseOwnerAndRepo exampleEnv ([''Acme/Widgets''] ! 0) (getBaseURL exampleEnv)
       = (''Acme'', ''Widgets'')
   \<and> (\<exists>rest. snd (handleUnsubscribe exampleEnv \<lparr>UserId = ''u1'', ChannelId = ''c1''\<rparr>
                     [''Acme/Widgets'']) =
               UnsubscribeCall ''c1'' ''widgets'' ''acme'' # rest)
   \<and> kv (snd (handleSetDefaultRepo exampleEnv
                \<lparr>kv = Map.empty, getErr = None, setErr = None, sets = []\<rparr>
                \<lparr>UserId = ''u1'', ChannelId = ''c1''\<rparr> [''Acme/Widgets''] \<lparr>UserID = ''u1''\<rparr>))
         ''c1_u1-default-repo'' = Some ''acme/widgets''"
proof -
  let ?s = "\<lparr>kv = Map.empty, getErr = None, setErr = None, sets = []\<rparr>"
  let ?args = "\<lparr>UserId = ''u1'', ChannelId = ''c1''\<rparr>"
  let ?u = "\<lparr>UserID = ''u1''\<rparr>"
  have p: "[''Acme/Widgets''] \<noteq> []" by simp
  have q: "parseOwnerAndRepo exampleEnv ([''Acme/Widgets''] ! 0) (getBaseURL exampleEnv)
             = (''Acme'', ''Widgets'')"
    by (simp add: exampleEnv_def splitOwnerAndRepo_def)
  have lo: "ToLower exampleEnv ''Acme'' = ''acme''" "ToLower exampleEnv ''Widgets'' = ''widgets''"
    by (simp_all add: exampleEnv_def asciiToLower_def)
  have org: "GitHubOrg exampleEnv = []"
    by (simp add: exampleEnv_def)
  have gh: "RepositoriesGet exampleEnv ''acme'' ''widgets'' = Inr (Some \<lparr>Private = False\<rparr>)"
    by (simp add: exampleEnv_def)
  have key: "DefaultRepoKey ''c1'' ''u1'' = ''c1_u1-default-repo''"
    by (simp add: DefaultRepoKey_def)
  note t = handlers_lowercase_repository_keys [OF p q, of ?args ?s ?u "\<lparr>Private = False\<rparr>"]
  have a: "\<exists>rest. snd (handleUnsubscribe exampleEnv ?args [''Acme/Widgets'']) =
               UnsubscribeCall ''c1'' ''widgets'' ''acme'' # rest"
    using t lo by auto
  have b: "kv (snd (handleSetDefaultRepo exampleEnv ?s ?args [''Acme/Widgets''] ?u))
             ''c1_u1-default-repo'' = Some ''acme/widgets''"
    using t lo org gh key by simp
  show ?thesis using p q a b by blast
qed

section \<open>The exclude list on a subscription to a repository\<close>

lemma checkFeatureConflict_two:
  "\<not> fst (checkFeatureConflict fs) \<Longrightarrow> \<exists>a b. snd (checkFeatureConflict fs) = [a, b]"
  by (auto simp: checkFeatureConflict_def split: if_splits)

text \<open>What the block of the flags returns once the loop has parsed them.\<close>

lemma handleSubscribesAdd_flags_eq:
  assumes "handleSubscribesAdd_flagLoop env flagParams (ev0, emptyFlags)
             = Inr (subscriptionEvents, flags)"
  shows "handleSubscribesAdd_flags env flagParams ev0 =
     (if odd (length flagParams) then Inl flagFormatError
      else if \<not> fst (checkFeatureConflict (ToSlice subscriptionEvents)) then
        Inl (''Feature list cannot contain both ''
               @ snd (checkFeatureConflict (ToSlice subscriptionEvents)) ! 0 @ '' and ''
               @ snd (checkFeatureConflict (ToSlice subscriptionEvents)) ! 1)
      else if \<not> fst (validateFeatures (ToSlice subscriptionEvents)) then
        Inl (if snd (validateFeatures (ToSlice subscriptionEvents)) = [] then labelBaseError
             else ''Invalid feature(s) provided: ''
                    @ Join (snd (validateFeatures (ToSlice subscriptionEvents))) '','')
      else Inr (subscriptionEvents, flags))"
proof -
  have two: "length (snd (checkFeatureConflict (ToSlice subscriptionEvents))) = 2"
    if "\<not> fst (checkFeatureConflict (ToSlice subscriptionEvents))"
    using checkFeatureConflict_two [OF that] by auto
  show ?thesis
    using assms two
    by (auto simp: handleSubscribesAdd_flags_def Let_def odd_iff_mod_2_eq_one
        split: prod.splits)
qed

lemma getSubscribedFeatures_read:
  "StoredSubscriptions env = Inl err \<Longrightarrow>
   getSubscribedFeatures env channelID owner repo =
     Inl (''could not get subscriptions: could not get subscriptions from KVStore: '' @ err)"
  "StoredSubscriptions env = Inr stored \<Longrightarrow>
   \<exists>previous. getSubscribedFeatures env channelID owner repo = Inr previous"
  by (auto simp: getSubscribedFeatures_def GetSubscriptionsByChannel_def GetSubscriptions_def
      Wrap_def split: option.splits)

text \<open>
  The handler up to the point where a repository is told from an organization, for a
  command whose flags the loop has parsed: the reply of the first failing check, or
  what follows for the owner and repository parsed.
\<close>

lemma handleSubscribesAdd_checks:
  assumes "1 < length parameters"
    and "handleSubscribesAdd_flagLoop env (drop 1 parameters)
           (''pulls,issues,creates,deletes'', emptyFlags) = Inr (subscriptionEvents, flags)"
    and "parseOwnerAndRepo env (parameters ! 0) (getBaseURL env) = (owner, repo)"
  shows "odd (length (drop 1 parameters)) \<Longrightarrow>
           handleSubscribesAdd env args parameters = (flagFormatError, [])"
    and "even (length (drop 1 parameters)) \<Longrightarrow>
         \<not> fst (checkFeatureConflict (ToSlice subscriptionEvents)) \<Longrightarrow>
           handleSubscribesAdd env args parameters =
             (''Feature list cannot contain both ''
                @ snd (checkFeatureConflict (ToSlice subscriptionEvents)) ! 0 @ '' and ''
                @ snd (checkFeatureConflict (ToSlice subscriptionEvents)) ! 1, [])"
    and "even (length (drop 1 parameters)) \<Longrightarrow>
         fst (checkFeatureConflict (ToSlice subscriptionEvents)) \<Longrightarrow>
         \<not> fst (validateFeatures (ToSlice subscriptionEvents)) \<Longrightarrow>
           handleSubscribesAdd env args parameters =
             (if snd (validateFeatures (ToSlice subscriptionEvents)) = [] then labelBaseError
              else ''Invalid feature(s) provided: ''
                     @ Join (snd (validateFeatures (ToSlice subscriptionEvents))) '','', [])"
    and "even (length (drop 1 parameters)) \<Longrightarrow>
         fst (checkFeatureConflict (ToSlice subscriptionEvents)) \<Longrightarrow>
         fst (validateFeatures (ToSlice subscriptionEvents)) \<Longrightarrow>
         UserGet env (UserId args) = Inl userErr \<Longrightarrow>
           handleSubscribesAdd env args parameters = (''failed to get the user: '' @ userErr, [])"
    and "even (length (drop 1 parameters)) \<Longrightarrow>
         fst (checkFeatureConflict (ToSlice subscriptionEvents)) \<Longrightarrow>
         fst (validateFeatures (ToSlice subscriptionEvents)) \<Longrightarrow>
         UserGet env (UserId args) = Inr user \<Longrightarrow>
         StoredSubscriptions env = Inl storeErr \<Longrightarrow>
           handleSubscribesAdd env args parameters =
             (''failed to get the subscribed events: could not get subscriptions: could not get subscriptions from KVStore: ''
                @ storeErr, [])"
    and "even (length (drop 1 parameters)) \<Longrightarrow>
         fst (checkFeatureConflict (ToSlice subscriptionEvents)) \<Longrightarrow>
         fst (validateFeatures (ToSlice subscriptionEvents)) \<Longrightarrow>
         UserGet env (UserId args) = Inr user \<Longrightarrow>
         StoredSubscriptions env = Inr stored \<Longrightarrow>
         repo \<noteq> [] \<Longrightarrow> ExcludeRepository flags \<noteq> [] \<Longrightarrow>
           handleSubscribesAdd env args parameters = (excludeRepositoryError, [])"
    and "even (length (drop 1 parameters)) \<Longrightarrow>
         fst (checkFeatureConflict (ToSlice subscriptionEvents)) \<Longrightarrow>
         fst (validateFeatures (ToSlice subscriptionEvents)) \<Longrightarrow>
         UserGet env (UserId args) = Inr user \<Longrightarrow>
         StoredSubscriptions env = Inr stored \<Longrightarrow>
         repo = [] \<Longrightarrow>
           \<exists>rest. snd (handleSubscribesAdd env args parameters) =
             SubscribeOrgCall (UserId args) owner (ChannelId args) subscriptionEvents flags # rest"
proof -
  note f = handleSubscribesAdd_flags_eq [OF assms(2)]
  have n: "parameters \<noteq> []" using assms(1) by auto
  show "handleSubscribesAdd env args parameters = (flagFormatError, [])"
    if "odd (length (drop 1 parameters))"
    using that assms(1) n f by (simp add: handleSubscribesAdd_def)
  show "handleSubscribesAdd env args parameters =
             (''Feature list cannot contain both ''
                @ snd (checkFeatureConflict (ToSlice subscriptionEvents)) ! 0 @ '' and ''
                @ snd (checkFeatureConflict (ToSlice subscriptionEvents)) ! 1, [])"
    if "even (length (drop 1 parameters))"
      "\<not> fst (checkFeatureConflict (ToSlice subscriptionEvents))"
    using that assms(1) n f by (simp add: handleSubscribesAdd_def)
  show "handleSubscribesAdd env args parameters =
             (if snd (validateFeatures (ToSlice subscriptionEvents)) = [] then labelBaseError
              else ''Invalid feature(s) provided: ''
                     @ Join (snd (validateFeatures (ToSlice subscriptionEvents))) '','', [])"
    if "even (length (drop 1 parameters))"
      "fst (checkFeatureConflict (ToSlice subscriptionEvents))"
      "\<not> fst (validateFeatures (ToSlice subscriptionEvents))"
    using that assms(1) n f by (simp add: handleSubscribesAdd_def)
  show "handleSubscribesAdd env args parameters = (''failed to get the user: '' @ userErr, [])"
    if "even (length (drop 1 parameters))"
      "fst (checkFeatureConflict (ToSlice subscriptionEvents))"
      "fst (validateFeatures (ToSlice subscriptionEvents))"
      "UserGet env (UserId args) = Inl userErr"
    using that assms(1) n f by (simp add: handleSubscribesAdd_def)
  show "handleSubscribesAdd env args parameters =
             (''failed to get the subscribed events: could not get subscriptions: could not get subscriptions from KVStore: ''
                @ storeErr, [])"
    if "even (length (drop 1 parameters))"
      "fst (checkFeatureConflict (ToSlice subscriptionEvents))"
      "fst (validateFeatures (ToSlice subscriptionEvents))"
      "UserGet env (UserId args) = Inr user"
      and st: "StoredSubscriptions env = Inl storeErr"
    using that assms(1,3) n f getSubscribedFeatures_read(1) [OF st, of "ChannelId args" owner repo]
    by (simp add: handleSubscribesAdd_def)
  show "handleSubscribesAdd env args parameters = (excludeRepositoryError, [])"
    if "even (length (drop 1 parameters))"
      "fst (checkFeatureConflict (ToSlice subscriptionEvents))"
      "fst (validateFeatures (ToSlice subscriptionEvents))"
      "UserGet env (UserId args) = Inr user"
      and st: "StoredSubscriptions env = Inr stored"
      and "repo \<noteq> []" "ExcludeRepository flags \<noteq> []"
  proof -
    obtain previous where "getSubscribedFeatures env (ChannelId args) owner repo = Inr previous"
      using getSubscribedFeatures_read(2) [OF st] by blast
    then show ?thesis
      using that assms(1,3) n f by (simp add: handleSubscribesAdd_def Let_def)
  qed
  show "\<exists>rest. snd (handleSubscribesAdd env args parameters) =
             SubscribeOrgCall (UserId args) owner (ChannelId args) subscriptionEvents flags # rest"
    if "even (length (drop 1 parameters))"
      "fst (checkFeatureConflict (ToSlice subscriptionEvents))"
      "fst (validateFeatures (ToSlice subscriptionEvents))"
      "UserGet env (UserId args) = Inr user"
      and st: "StoredSubscriptions env = Inr stored"
      and "repo = []"
  proof -
    obtain previous where "getSubscribedFeatures env (ChannelId args) owner repo = Inr previous"
      using getSubscribedFeatures_read(2) [OF st] by blast
    then show ?thesis
      using that assms(1,3) n f
      by (auto simp: handleSubscribesAdd_def handleSubscribesAdd_org_def createPost_def Let_def
          split: option.splits)
  qed
qed

lemma handleSubscribesAdd_exclude_no_call:
  assumes "1 < length parameters"
    and "handleSubscribesAdd_flagLoop env (drop 1 parameters)
           (''pulls,issues,creates,deletes'', emptyFlags) = Inr (subscriptionEvents, flags)"
    and "ExcludeRepository flags \<noteq> []"
    and "parseOwnerAndRepo env (parameters ! 0) (getBaseURL env) = (owner, repo)"
    and "repo \<noteq> []"
  shows "snd (handleSubscribesAdd env args parameters) = []"
proof -
  note f = handleSubscribesAdd_flags_eq [OF assms(2)]
  have n: "parameters \<noteq> []" using assms(1) by auto
  show ?thesis
    using assms(1,3,4,5) n f
    by (auto simp: handleSubscribesAdd_def Let_def split: sum.splits if_splits)
qed

text \<open>
  Claim C3, as the code has it. Take a subscribe-add command whose flags parse to a
  non-empty exclude list. If it names a repository (\<open>owner/repo\<close>), the handler makes
  no call at all, so no subscription is created, and its reply is that of the first
  check that fails, in the order of the code: an odd number of flag parameters,
  conflicting features, an invalid feature or a label without \<open>pulls\<close>, \<open>issues\<close>
  or \<open>issue_creations\<close>, the user not found, the subscriptions not read; when none
  fails the reply is the exclude-repository message. When none fails and the command
  names an organization alone, it is accepted: \<open>SubscribeOrg\<close> is called with the
  flags.
\<close>

theorem handleSubscribesAdd_exclude_repository_org_only:
  assumes "1 < length parameters"
    and "handleSubscribesAdd_flagLoop env (drop 1 parameters)
           (''pulls,issues,creates,deletes'', emptyFlags) = Inr (subscriptionEvents, flags)"
    and "ExcludeRepository flags \<noteq> []"
    and "parseOwnerAndRepo env (parameters ! 0) (getBaseURL env) = (owner, repo)"
  shows "(repo \<noteq> [] \<longrightarrow>
           snd (handleSubscribesAdd env args parameters) = []
           \<and> (odd (length (drop 1 parameters)) \<longrightarrow>
                fst (handleSubscribesAdd env args parameters) = flagFormatError)
           \<and> (even (length (drop 1 parameters))
                \<and> \<not> fst (checkFeatureConflict (ToSlice subscriptionEvents)) \<longrightarrow>
                (\<exists>a b. snd (checkFeatureConflict (ToSlice subscriptionEvents)) = [a, b]
                   \<and> fst (handleSubscribesAdd env args parameters) =
                       ''Feature list cannot contain both '' @ a @ '' and '' @ b))
           \<and> (even (length (drop 1 parameters))
                \<and> fst (checkFeatureConflict (ToSlice subscriptionEvents))
                \<and> \<not> fst (validateFeatures (ToSlice subscriptionEvents)) \<longrightarrow>
                fst (handleSubscribesAdd env args parameters) =
                  (if snd (validateFeatures (ToSlice subscriptionEvents)) = [] then labelBaseError
                   else ''Invalid feature(s) provided: ''
                          @ Join (snd (validateFeatures (ToSlice subscriptionEvents))) '',''))
           \<and> (even (length (drop 1 parameters))
                \<and> fst (checkFeatureConflict (ToSlice subscriptionEvents))
                \<and> fst (validateFeatures (ToSlice subscriptionEvents)) \<longrightarrow>
                (UserGet env (UserId args) = Inl userErr \<longrightarrow>
                   fst (handleSubscribesAdd env args parameters) =
                     ''failed to get the user: '' @ userErr)
                \<and> (UserGet env (UserId args) = Inr user
                     \<and> StoredSubscriptions env = Inl storeErr \<longrightarrow>
                     fst (handleSubscribesAdd env args parameters) =
                       ''failed to get the subscribed events: could not get subscriptions: could not get subscriptions from KVStore: ''
                         @ storeErr)
                \<and> (UserGet env (UserId args) = Inr user
                     \<and> StoredSubscriptions env = Inr stored \<longrightarrow>
                     fst (handleSubscribesAdd env args parameters) = excludeRepositoryError)))
       \<and> (repo = []
            \<and> even (length (drop 1 parameters))
            \<and> fst (checkFeatureConflict (ToSlice subscriptionEvents))
            \<and> fst (validateFeatures (ToSlice subscriptionEvents))
            \<and> UserGet env (UserId args) = Inr user
            \<and> StoredSubscriptions env = Inr stored \<longrightarrow>
            (\<exists>rest. snd (handleSubscribesAdd env args parameters) =
               SubscribeOrgCall (UserId args) owner (ChannelId args) subscriptionEvents flags
                 # rest))"
proof -
  note c = handleSubscribesAdd_checks [OF assms(1,2,4), of args]
  have conflict: "\<exists>a b. snd (checkFeatureConflict (ToSlice subscriptionEvents)) = [a, b]
                   \<and> fst (handleSubscribesAdd env args parameters) =
                       ''Feature list cannot contain both '' @ a @ '' and '' @ b"
    if e: "even (length (drop 1 parameters))"
      and n: "\<not> fst (checkFeatureConflict (ToSlice subscriptionEvents))"
  proof -
    obtain a b where ab: "snd (checkFeatureConflict (ToSlice subscriptionEvents)) = [a, b]"
      using checkFeatureConflict_two [OF n] by blast
    then show ?thesis using c(2) [OF e n] by simp
  qed
  have r1: "repo \<noteq> [] \<longrightarrow> snd (handleSubscribesAdd env args parameters) = []"
    using handleSubscribesAdd_exclude_no_call [OF assms, of args] by blast
  have r2: "odd (length (drop 1 parameters)) \<longrightarrow>
              fst (handleSubscribesAdd env args parameters) = flagFormatError"
    using c(1) by simp
  have r3: "even (length (drop 1 parameters))
                \<and> fst (checkFeatureConflict (ToSlice subscriptionEvents))
                \<and> \<not> fst (validateFeatures (ToSlice subscriptionEvents)) \<longrightarrow>
                fst (handleSubscribesAdd env args parameters) =
                  (if snd (validateFeatures (ToSlice subscriptionEvents)) = [] then labelBaseError
                   else ''Invalid feature(s) provided: ''
                          @ Join (snd (validateFeatures (ToSlice subscriptionEvents))) '','')"
    using c(3) by simp
  have r4: "even (length (drop 1 parameters))
                \<and> fst (checkFeatureConflict (ToSlice subscriptionEvents))
                \<and> fst (validateFeatures (ToSlice subscriptionEvents))
                \<and> UserGet env (UserId args) = Inl userErr \<longrightarrow>
                   fst (handleSubscribesAdd env args parameters) =
                     ''failed to get the user: '' @ userErr"
    using c(4) [of userErr] by simp
  have r5: "even (length (drop 1 parameters))
                \<and> fst (checkFeatureConflict (ToSlice subscriptionEvents))
                \<and> fst (validateFeatures (ToSlice subscriptionEvents))
                \<and> UserGet env (UserId args) = Inr user
                \<and> StoredSubscriptions env = Inl storeErr \<longrightarrow>
                     fst (handleSubscribesAdd env args parameters) =
                       ''failed to get the subscribed events: could not get subscriptions: could not get subscriptions from KVStore: ''
                         @ storeErr"
    using c(5) [of user storeErr] by simp
  have r6: "repo \<noteq> [] \<and> even (length (drop 1 parameters))
                \<and> fst (checkFeatureConflict (ToSlice subscriptionEvents))
                \<and> fst (validateFeatures (ToSlice subscriptionEvents))
                \<and> UserGet env (UserId args) = Inr user
                \<and> StoredSubscriptions env = Inr stored \<longrightarrow>
                     fst (handleSubscribesAdd env args parameters) = excludeRepositoryError"
    using c(6) [of user stored] assms(3) by simp
  have r7: "repo = []
            \<and> even (length (drop 1 parameters))
            \<and> fst (checkFeatureConflict (ToSlice subscriptionEvents))
            \<and> fst (validateFeatures (ToSlice subscriptionEvents))
            \<and> UserGet env (UserId args) = Inr user
            \<and> StoredSubscriptions env = Inr stored \<longrightarrow>
            (\<exists>rest. snd (handleSubscribesAdd env args parameters) =
               SubscribeOrgCall (UserId args) owner (ChannelId args) subscriptionEvents flags
                 # rest)"
    using c(7) [of user stored] by blast
  show ?thesis
    using r1 r2 conflict r3 r4 r5 r6 r7 by blast
qed

theorem handleSubscribesAdd_exclude_repository_org_only_witness:
  "1 < length [''acme/widgets'', ''--exclude'', ''foo'']
   \<and> handleSubscribesAdd_flagLoop exampleEnv (drop 1 [''acme/widgets'', ''--exclude'', ''foo''])
        (''pulls,issues,creates,deletes'', emptyFlags)
       = Inr (''pulls,issues,creates,deletes'', emptyFlags\<lparr>ExcludeRepository := [''foo'']\<rparr>)
   \<and> ExcludeRepository (emptyFlags\<lparr>ExcludeRepository := [''foo'']\<rparr>) \<noteq> []
   \<and> parseOwnerAndRepo exampleEnv ([''acme/widgets'', ''--exclude'', ''foo''] ! 0)
        (getBaseURL exampleEnv) = (''acme'', ''widgets'')
   \<and> handleSubscribesAdd exampleEnv \<lparr>UserId = ''u1'', ChannelId = ''c1''\<rparr>
        [''acme/widgets'', ''--exclude'', ''foo'']
       = (excludeRepositoryError, [])
   \<and> handleSubscribesAdd (exampleEnv\<lparr>StoredSubscriptions := Inl ''store error''\<rparr>)
        \<lparr>UserId = ''u1'', ChannelId = ''c1''\<rparr> [''acme/widgets'', ''--exclude'', ''foo'']
       = (''failed to get the subscribed events: could not get subscriptions: could not get subscriptions from KVStore: store error'', [])
   \<and> parseOwnerAndRepo exampleEnv ([''acme'', ''--exclude'', ''foo''] ! 0)
        (getBaseURL exampleEnv) = (''acme'', [])
   \<and> (\<exists>rest. snd (handleSubscribesAdd exampleEnv \<lparr>UserId = ''u1'', ChannelId = ''c1''\<rparr>
                     [''acme'', ''--exclude'', ''foo'']) =
          SubscribeOrgCall ''u1'' ''acme'' ''c1'' ''pulls,issues,creates,deletes''
            (emptyFlags\<lparr>ExcludeRepository := [''foo'']\<rparr>) # rest)"
proof -
  let ?args = "\<lparr>UserId = ''u1'', ChannelId = ''c1''\<rparr>"
  let ?ev = "''pulls,issues,creates,deletes''"
  let ?flags = "emptyFlags\<lparr>ExcludeRepository := [''foo'']\<rparr>"
  let ?env2 = "exampleEnv\<lparr>StoredSubscriptions := Inl ''store error''\<rparr>"
  have n: "1 < length [''acme/widgets'', ''--exclude'', ''foo'']"
    and n': "1 < length [''acme'', ''--exclude'', ''foo'']"
    by simp_all
  have l: "handleSubscribesAdd_flagLoop exampleEnv (drop 1 [''acme/widgets'', ''--exclude'', ''foo''])
             (?ev, emptyFlags) = Inr (?ev, ?flags)"
    and l': "handleSubscribesAdd_flagLoop exampleEnv (drop 1 [''acme'', ''--exclude'', ''foo''])
             (?ev, emptyFlags) = Inr (?ev, ?flags)"
    and l2: "handleSubscribesAdd_flagLoop ?env2 (drop 1 [''acme/widgets'', ''--exclude'', ''foo''])
             (?ev, emptyFlags) = Inr (?ev, ?flags)"
    by (simp_all add: exampleEnv_def AddFlag_def flagFeatures_def flagExcludeOrgMember_def
        flagIncludeOnlyOrgMembers_def flagRenderStyle_def flagExcludeRepository_def
        asciiTrimSpace_def asciiSpace_def HasPrefix_def Let_def)
  have x: "ExcludeRepository ?flags \<noteq> []"
    by simp
  have p: "parseOwnerAndRepo exampleEnv ([''acme/widgets'', ''--exclude'', ''foo''] ! 0)
             (getBaseURL exampleEnv) = (''acme'', ''widgets'')"
    and p': "parseOwnerAndRepo exampleEnv ([''acme'', ''--exclude'', ''foo''] ! 0)
             (getBaseURL exampleEnv) = (''acme'', [])"
    and p2: "parseOwnerAndRepo ?env2 ([''acme/widgets'', ''--exclude'', ''foo''] ! 0)
             (getBaseURL ?env2) = (''acme'', ''widgets'')"
    by (simp_all add: exampleEnv_def splitOwnerAndRepo_def)
  have e: "even (length (drop 1 [''acme/widgets'', ''--exclude'', ''foo'']))"
    and e': "even (length (drop 1 [''acme'', ''--exclude'', ''foo'']))"
    by simp_all
  have s: "ToSlice ?ev = [''pulls'', ''issues'', ''creates'', ''deletes'']"
    by (simp add: ToSlice_def)
  have c: "fst (checkFeatureConflict (ToSlice ?ev))"
    unfolding s by (simp add: checkFeatureConflict_def feature_defs)
  have v: "fst (validateFeatures (ToSlice ?ev))"
    unfolding s
    by (simp add: validateFeatures_def validFeatures_def validFeaturesEntries_def feature_defs)
  have u: "UserGet exampleEnv (UserId ?args) = Inr \<lparr>Username = ''alice''\<rparr>"
    and u2: "UserGet ?env2 (UserId ?args) = Inr \<lparr>Username = ''alice''\<rparr>"
    and g: "StoredSubscriptions exampleEnv = Inr None"
    and g2: "StoredSubscriptions ?env2 = Inl ''store error''"
    by (simp_all add: exampleEnv_def)
  have w: "''widgets'' \<noteq> []" by simp
  have r: "handleSubscribesAdd exampleEnv ?args [''acme/widgets'', ''--exclude'', ''foo'']
             = (excludeRepositoryError, [])"
    using handleSubscribesAdd_exclude_repository_org_only
            [OF n l x p, of ?args _ "\<lparr>Username = ''alice''\<rparr>" _ None] e c v u g w
    by (simp add: prod_eq_iff)
  have r2: "handleSubscribesAdd ?env2 ?args [''acme/widgets'', ''--exclude'', ''foo'']
             = (''failed to get the subscribed events: could not get subscriptions: could not get subscriptions from KVStore: store error'', [])"
    using handleSubscribesAdd_exclude_repository_org_only
            [OF n l2 x p2, of ?args _ "\<lparr>Username = ''alice''\<rparr>" "''store error''"] e c v u2 g2 w
    by (simp add: prod_eq_iff)
  have o: "\<exists>rest. snd (handleSubscribesAdd exampleEnv ?args [''acme'', ''--exclude'', ''foo'']) =
             SubscribeOrgCall ''u1'' ''acme'' ''c1'' ?ev ?flags # rest"
    using handleSubscribesAdd_exclude_repository_org_only
            [OF n' l' x p', of ?args _ "\<lparr>Username = ''alice''\<rparr>" _ None] e' c v u g
    by simp
  show ?thesis using n l x p r r2 p' o by blast
qed

text \<open>
  Counterexample to claim C3 as it is written, a command that an earlier check rejects:
  \<open>acme/widgets --exclude foo --features bogus\<close> names a repository and supplies the
  exclude list \<open>foo\<close>, and the reply is the one for the invalid feature.
\<close>

theorem handleSubscribesAdd_exclude_invalid_features_counterexample:
  "parseOwnerAndRepo exampleEnv
       ([''acme/widgets'', ''--exclude'', ''foo'', ''--features'', ''bogus''] ! 0)
       (getBaseURL exampleEnv) = (''acme'', ''widgets'')
   \<and> handleSubscribesAdd_flagLoop exampleEnv
        (drop 1 [''acme/widgets'', ''--exclude'', ''foo'', ''--features'', ''bogus''])
        (''pulls,issues,creates,deletes'', emptyFlags)
       = Inr (''bogus'', emptyFlags\<lparr>ExcludeRepository := [''foo'']\<rparr>)
   \<and> handleSubscribesAdd exampleEnv \<lparr>UserId = ''u1'', ChannelId = ''c1''\<rparr>
        [''acme/widgets'', ''--exclude'', ''foo'', ''--features'', ''bogus'']
       = (''Invalid feature(s) provided: bogus'', [])
   \<and> ''Invalid feature(s) provided: bogus'' \<noteq> excludeRepositoryError"
proof -
  have a: "parseOwnerAndRepo exampleEnv
       ([''acme/widgets'', ''--exclude'', ''foo'', ''--features'', ''bogus''] ! 0)
       (getBaseURL exampleEnv) = (''acme'', ''widgets'')"
    by (simp add: exampleEnv_def splitOwnerAndRepo_def)
  have b: "handleSubscribesAdd_flagLoop exampleEnv
        (drop 1 [''acme/widgets'', ''--exclude'', ''foo'', ''--features'', ''bogus''])
        (''pulls,issues,creates,deletes'', emptyFlags)
       = Inr (''bogus'', emptyFlags\<lparr>ExcludeRepository := [''foo'']\<rparr>)"
    by (simp add: exampleEnv_def AddFlag_def flagFeatures_def flagExcludeOrgMember_def
        flagIncludeOnlyOrgMembers_def flagRenderStyle_def flagExcludeRepository_def
        asciiTrimSpace_def asciiSpace_def HasPrefix_def Let_def)
  have v: "validateFeatures [''bogus''] = (False, [''bogus''])"
    by (simp add: validateFeatures_def validFeatures_def validFeaturesEntries_def feature_defs
        HasPrefix_def)
  have c: "checkFeatureConflict [''bogus''] = (True, [])"
    by (simp add: checkFeatureConflict_def feature_defs)
  have f: "handleSubscribesAdd_flags exampleEnv
        (drop 1 [''acme/widgets'', ''--exclude'', ''foo'', ''--features'', ''bogus''])
        ''pulls,issues,creates,deletes'' = Inl ''Invalid feature(s) provided: bogus''"
    unfolding handleSubscribesAdd_flags_def b
    by (simp add: ToSlice_def v c)
  have d: "handleSubscribesAdd exampleEnv \<lparr>UserId = ''u1'', ChannelId = ''c1''\<rparr>
        [''acme/widgets'', ''--exclude'', ''foo'', ''--features'', ''bogus'']
       = (''Invalid feature(s) provided: bogus'', [])"
    unfolding handleSubscribesAdd_def f by simp
  have e: "''Invalid feature(s) provided: bogus'' \<noteq> excludeRepositoryError"
    by (simp add: excludeRepositoryError_def)
  show ?thesis using a b d e by blast
qed

section \<open>The listing of a channel's subscriptions\<close>

lemma handleSubscriptionsList_loop_eq:
  "handleSubscriptionsList_loop subs acc = acc @ concat (map subscriptionLine subs)"
  by (induction subs arbitrary: acc) auto

lemma GetSubscriptionsByChannel_subs_eq:
  "GetSubscriptionsByChannel_subs channelID repo v =
     map (\<lambda>s. if Repository s = [] then s\<lparr>Repository := repo\<rparr> else s)
       (filter (\<lambda>s. ChannelID s = channelID) v)"
  by (induction v) auto

lemma GetSubscriptionsByChannel_loop_eq:
  "GetSubscriptionsByChannel_loop channelID repositories =
     concat (map (\<lambda>(repo, v).
                map (\<lambda>s. if Repository s = [] then s\<lparr>Repository := repo\<rparr> else s)
                  (filter (\<lambda>s. ChannelID s = channelID) v)) repositories)"
  by (induction repositories) (auto simp: GetSubscriptionsByChannel_subs_eq)

lemma mset_concat_permutation:
  "mset xs = mset ys \<Longrightarrow> mset (concat (map g xs)) = mset (concat (map g ys))"
proof -
  assume a: "mset xs = mset ys"
  have "mset (concat (map g zs)) = sum_mset (image_mset (\<lambda>z. mset (g z)) (mset zs))" for zs
    by (induction zs) auto
  then show ?thesis using a by simp
qed

lemma GetSubscriptionsByChannel_loop_permutation:
  "mset repositories' = mset repositories \<Longrightarrow>
   mset (GetSubscriptionsByChannel_loop channelID repositories')
     = mset (GetSubscriptionsByChannel_loop channelID repositories)"
  unfolding GetSubscriptionsByChannel_loop_eq by (rule mset_concat_permutation)

lemma filter_same_key:
  "distinct (map f xs) \<Longrightarrow> k \<in> set xs \<Longrightarrow> filter (\<lambda>x. f k = f x) xs = [k]"
proof (induction xs)
  case Nil
  then show ?case by simp
next
  case (Cons a xs)
  show ?case
  proof (cases "k = a")
    case True
    have "filter (\<lambda>x. f a = f x) xs = []"
      using Cons.prems(1) by (auto simp: filter_empty_conv)
    then show ?thesis using True by simp
  next
    case False
    then have "k \<in> set xs" using Cons.prems(2) by simp
    moreover have "f k \<noteq> f a"
      using Cons.prems(1) calculation by (metis distinct.simps(2) image_eqI list.simps(9) set_map)
    ultimately show ?thesis using Cons by simp
  qed
qed

text \<open>Two arrangements of the same elements, both sorted by a key that tells them apart, are equal.\<close>

lemma sorted_by_distinct_key_unique:
  assumes "mset ys = mset zs" and "sorted (map f ys)" and "sorted (map f zs)"
    and "distinct (map f zs)"
  shows "ys = zs"
proof -
  have dy: "distinct (map f ys)"
  proof -
    have "mset (map f ys) = mset (map f zs)" using assms(1) by (metis mset_map)
    then show ?thesis using assms(4) by (metis mset_eq_imp_distinct_iff)
  qed
  have "sort_key f zs = ys"
  proof (rule properties_for_sort_key)
    show "mset ys = mset zs" by (rule assms(1))
    show "sorted (map f ys)" by (rule assms(2))
    fix k assume k: "k \<in> set ys"
    then have "k \<in> set zs" using assms(1) by (metis mset_eq_setD)
    then have "filter (\<lambda>x. f k = f x) zs = [k]" using assms(4) by (rule filter_same_key [rotated])
    moreover have "filter (\<lambda>x. f k = f x) ys = [k]" using dy k by (rule filter_same_key)
    ultimately show "filter (\<lambda>x. f k = f x) ys = filter (\<lambda>x. f k = f x) zs" by simp
  qed
  moreover have "sort_key f zs = zs"
    using assms(3) by (simp add: sort_key_id_if_sorted)
  ultimately show ?thesis by simp
qed

lemma sorted_keys_unique:
  assumes "mset ys = mset zs" and "sorted (map f ys)"
  shows "map f ys = sort (map f zs)"
proof -
  have "mset (map f ys) = mset (map f zs)" using assms(1) by (metis mset_map)
  then have "sort (map f zs) = map f ys"
    using assms(2) by (intro properties_for_sort) simp_all
  then show ?thesis by simp
qed

lemma insertionSort_insert_mset:
  "mset (insertionSort_insert lessFunc x ys) = add_mset x (mset ys)"
  by (induction ys) auto

lemma insertionSort_insert_sorted:
  assumes "sorted (rev (map f ys))"
  shows "sorted (rev (map f (insertionSort_insert (\<lambda>a b. f a < f b) x ys)))"
  using assms
proof (induction ys)
  case Nil
  then show ?case by simp
next
  case (Cons y ys)
  have s: "sorted (rev (map f ys))" and le: "\<forall>z\<in>set ys. f z \<le> f y"
    using Cons.prems by (auto simp: sorted_append)
  show ?case
  proof (cases "f x < f y")
    case True
    have "set (insertionSort_insert (\<lambda>a b. f a < f b) x ys) = insert x (set ys)"
      using insertionSort_insert_mset [of "\<lambda>a b. f a < f b" x ys] by (metis mset_eq_setD set_mset_add_mset_insert set_mset_mset)
    then show ?thesis
      using True Cons.IH [OF s] le by (auto simp: sorted_append)
  next
    case False
    then show ?thesis
      using Cons.prems le by (auto simp: sorted_append)
  qed
qed

lemma insertionSort_foldl:
  "sorted (rev (map f acc)) \<Longrightarrow>
   mset (foldl (\<lambda>sortedPart x. insertionSort_insert (\<lambda>a b. f a < f b) x sortedPart) acc xs)
     = mset acc + mset xs
   \<and> sorted (rev (map f
        (foldl (\<lambda>sortedPart x. insertionSort_insert (\<lambda>a b. f a < f b) x sortedPart) acc xs)))"
proof (induction xs arbitrary: acc)
  case Nil
  then show ?case by simp
next
  case (Cons x xs)
  show ?case
    using Cons.IH [OF insertionSort_insert_sorted [OF Cons.prems, of x]]
    by (simp add: insertionSort_insert_mset)
qed

lemma insertionSortLessFunc_sorts: "sortsByRepository insertionSortLessFunc"
proof -
  have l: "lessRepository = (\<lambda>a b. Repository a < Repository b)"
    by (intro ext) (simp add: lessRepository_def)
  have "mset (insertionSortLessFunc lessRepository xs) = mset xs
        \<and> sorted (map Repository (insertionSortLessFunc lessRepository xs))"
    for xs :: "Subscription list"
    unfolding insertionSortLessFunc_def l
    using insertionSort_foldl [of Repository "[]" xs] by (simp add: rev_map)
  then show ?thesis
    unfolding sortsByRepository_def by blast
qed

lemma handleSubscriptionsList_eq:
  assumes "GetSubscriptionsByChannel env (ChannelId args) = Inr subs"
  shows "handleSubscriptionsList env args =
           (if subs = [] then ''Currently there are no subscriptions in this channel''
            else ''### Subscriptions in this channel'' @ [CHR 0x0A])
           @ concat (map subscriptionLine subs)"
  using assms by (simp add: handleSubscriptionsList_def handleSubscriptionsList_loop_eq)

lemma GetSubscriptionsByChannel_sorted:
  assumes "GetSubscriptions env = Inr repositories"
    and "sortsByRepository (sortSlice env)"
  shows "\<exists>subs. GetSubscriptionsByChannel env channelID = Inr subs
           \<and> sorted (map Repository subs)
           \<and> mset subs = mset (GetSubscriptionsByChannel_loop channelID repositories)"
  using assms by (simp add: GetSubscriptionsByChannel_def sortsByRepository_def)

lemma handleSubscriptionsList_other_order:
  assumes "GetSubscriptionsByChannel env (ChannelId args) = Inr subs"
    and "sorted (map Repository subs)"
    and "mset subs = mset (GetSubscriptionsByChannel_loop (ChannelId args) repositories)"
    and "GetSubscriptions env' = Inr repositories'"
    and "mset repositories' = mset repositories"
    and "sortsByRepository (sortSlice env')"
  shows "\<exists>subs'. GetSubscriptionsByChannel env' (ChannelId args) = Inr subs'
           \<and> map Repository subs' = map Repository subs"
    and "distinct (map Repository subs) \<Longrightarrow>
         handleSubscriptionsList env' args = handleSubscriptionsList env args"
proof -
  obtain subs' where s': "GetSubscriptionsByChannel env' (ChannelId args) = Inr subs'"
      "sorted (map Repository subs')"
      "mset subs' = mset (GetSubscriptionsByChannel_loop (ChannelId args) repositories')"
    using GetSubscriptionsByChannel_sorted [OF assms(4) assms(6)] by blast
  have m: "mset subs' = mset subs"
    using s'(3) assms(3) GetSubscriptionsByChannel_loop_permutation [OF assms(5)] by simp
  have "map Repository subs' = sort (map Repository subs)"
    using sorted_keys_unique [OF m s'(2)] .
  moreover have "map Repository subs = sort (map Repository subs)"
    using sorted_keys_unique [OF refl assms(2)] .
  ultimately have k: "map Repository subs' = map Repository subs" by simp
  show "\<exists>subs'. GetSubscriptionsByChannel env' (ChannelId args) = Inr subs'
           \<and> map Repository subs' = map Repository subs"
    using s'(1) k by blast
  show "handleSubscriptionsList env' args = handleSubscriptionsList env args"
    if "distinct (map Repository subs)"
  proof -
    have "subs' = subs"
      using sorted_by_distinct_key_unique [OF m s'(2) assms(2) that] .
    then show ?thesis
      using handleSubscriptionsList_eq [OF s'(1)] handleSubscriptionsList_eq [OF assms(1)]
      by simp
  qed
qed

text \<open>
  Claim C7. Let the aggregate be readable and let \<open>sort.Slice\<close> do what its
  documentation says. The subscriptions listed for a channel are the channel's
  subscriptions (one with an empty repository takes the key it is stored under) in
  ascending lexicographic order of their repository, and \<open>handleSubscriptionsList\<close>
  writes one line for each of them in that order after the heading. The repositories
  listed are the sorted list of the channel's repositories, so they do not depend on
  the order in which the map is visited or on how the sort arranges equal
  repositories; when the channel's repositories are distinct the whole text is the
  same.
\<close>

theorem handleSubscriptionsList_sorted_by_repository:
  assumes "GetSubscriptions env = Inr repositories"
    and "sortsByRepository (sortSlice env)"
  shows "\<exists>subs. GetSubscriptionsByChannel env (ChannelId args) = Inr subs
           \<and> sorted (map Repository subs)
           \<and> mset subs =
               mset (concat (map (\<lambda>(repo, v).
                       map (\<lambda>s. if Repository s = [] then s\<lparr>Repository := repo\<rparr> else s)
                         (filter (\<lambda>s. ChannelID s = ChannelId args) v)) repositories))
           \<and> map Repository subs =
               sort (map Repository (GetSubscriptionsByChannel_loop (ChannelId args) repositories))
           \<and> handleSubscriptionsList env args =
               (if subs = [] then ''Currently there are no subscriptions in this channel''
                else ''### Subscriptions in this channel'' @ [CHR 0x0A])
               @ concat (map subscriptionLine subs)
           \<and> (\<forall>env' repositories'.
                 GetSubscriptions env' = Inr repositories'
                 \<and> mset repositories' = mset repositories
                 \<and> sortsByRepository (sortSlice env') \<longrightarrow>
                 (\<exists>subs'. GetSubscriptionsByChannel env' (ChannelId args) = Inr subs'
                    \<and> map Repository subs' = map Repository subs)
                 \<and> (distinct (map Repository subs) \<longrightarrow>
                      handleSubscriptionsList env' args = handleSubscriptionsList env args))"
proof -
  obtain subs where s: "GetSubscriptionsByChannel env (ChannelId args) = Inr subs"
      "sorted (map Repository subs)"
      "mset subs = mset (GetSubscriptionsByChannel_loop (ChannelId args) repositories)"
    using GetSubscriptionsByChannel_sorted [OF assms] by blast
  have m: "mset subs =
               mset (concat (map (\<lambda>(repo, v).
                       map (\<lambda>s. if Repository s = [] then s\<lparr>Repository := repo\<rparr> else s)
                         (filter (\<lambda>s. ChannelID s = ChannelId args) v)) repositories))"
    using s(3) by (simp add: GetSubscriptionsByChannel_loop_eq)
  have k: "map Repository subs =
             sort (map Repository (GetSubscriptionsByChannel_loop (ChannelId args) repositories))"
    using sorted_keys_unique [OF s(3) s(2)] .
  have o: "\<forall>env' repositories'.
                 GetSubscriptions env' = Inr repositories'
                 \<and> mset repositories' = mset repositories
                 \<and> sortsByRepository (sortSlice env') \<longrightarrow>
                 (\<exists>subs'. GetSubscriptionsByChannel env' (ChannelId args) = Inr subs'
                    \<and> map Repository subs' = map Repository subs)
                 \<and> (distinct (map Repository subs) \<longrightarrow>
                      handleSubscriptionsList env' args = handleSubscriptionsList env args)"
    using handleSubscriptionsList_other_order [OF s] by blast
  show ?thesis
    using s(1) s(2) m k handleSubscriptionsList_eq [OF s(1)] o by blast
qed

theorem handleSubscriptionsList_sorted_by_repository_witness:
  "GetSubscriptions
      (exampleEnv\<lparr>StoredSubscriptions := Inr (Some
         [(''zeta/'', [\<lparr>ChannelID = ''channel3'', CreatorID = [], Features = ''issues'',
                         Flags = emptyFlags, Repository = []\<rparr>]),
          (''acme/widgets'', [\<lparr>ChannelID = ''channel3'', CreatorID = [], Features = ''pulls'',
                                Flags = emptyFlags, Repository = ''acme/widgets''\<rparr>,
                              \<lparr>ChannelID = ''channel4'', CreatorID = [], Features = ''pulls'',
                                Flags = emptyFlags, Repository = ''acme/widgets''\<rparr>])])\<rparr>)
     = Inr [(''zeta/'', [\<lparr>ChannelID = ''channel3'', CreatorID = [], Features = ''issues'',
                           Flags = emptyFlags, Repository = []\<rparr>]),
            (''acme/widgets'', [\<lparr>ChannelID = ''channel3'', CreatorID = [], Features = ''pulls'',
                                  Flags = emptyFlags, Repository = ''acme/widgets''\<rparr>,
                                \<lparr>ChannelID = ''channel4'', CreatorID = [], Features = ''pulls'',
                                  Flags = emptyFlags, Repository = ''acme/widgets''\<rparr>])]
   \<and> sortsByRepository (sortSlice exampleEnv)
   \<and> handleSubscriptionsList
      (exampleEnv\<lparr>StoredSubscriptions := Inr (Some
         [(''zeta/'', [\<lparr>ChannelID = ''channel3'', CreatorID = [], Features = ''issues'',
                         Flags = emptyFlags, Repository = []\<rparr>]),
          (''acme/widgets'', [\<lparr>ChannelID = ''channel3'', CreatorID = [], Features = ''pulls'',
                                Flags = emptyFlags, Repository = ''acme/widgets''\<rparr>,
                              \<lparr>ChannelID = ''channel4'', CreatorID = [], Features = ''pulls'',
                                Flags = emptyFlags, Repository = ''acme/widgets''\<rparr>])])\<rparr>)
      \<lparr>UserId = ''u1'', ChannelId = ''channel3''\<rparr>
     = ''### Subscriptions in this channel'' @ [CHR 0x0A]
       @ ''* `acme/widgets` - pulls'' @ [CHR 0x0A] @ ''* `zeta` - issues'' @ [CHR 0x0A]
   \<and> handleSubscriptionsList
      (exampleEnv\<lparr>StoredSubscriptions := Inr (Some
         [(''acme/widgets'', [\<lparr>ChannelID = ''channel3'', CreatorID = [], Features = ''pulls'',
                                Flags = emptyFlags, Repository = ''acme/widgets''\<rparr>,
                              \<lparr>ChannelID = ''channel4'', CreatorID = [], Features = ''pulls'',
                                Flags = emptyFlags, Repository = ''acme/widgets''\<rparr>]),
          (''zeta/'', [\<lparr>ChannelID = ''channel3'', CreatorID = [], Features = ''issues'',
                         Flags = emptyFlags, Repository = []\<rparr>])])\<rparr>)
      \<lparr>UserId = ''u1'', ChannelId = ''channel3''\<rparr>
     = ''### Subscriptions in this channel'' @ [CHR 0x0A]
       @ ''* `acme/widgets` - pulls'' @ [CHR 0x0A] @ ''* `zeta` - issues'' @ [CHR 0x0A]"
proof -
  let ?legacy = "\<lparr>ChannelID = ''channel3'', CreatorID = [], Features = ''issues'',
                   Flags = emptyFlags, Repository = []\<rparr>"
  let ?widgets = "\<lparr>ChannelID = ''channel3'', CreatorID = [], Features = ''pulls'',
                    Flags = emptyFlags, Repository = ''acme/widgets''\<rparr>"
  let ?other = "\<lparr>ChannelID = ''channel4'', CreatorID = [], Features = ''pulls'',
                  Flags = emptyFlags, Repository = ''acme/widgets''\<rparr>"
  let ?r = "[(''zeta/'', [?legacy]), (''acme/widgets'', [?widgets, ?other])]"
  let ?env = "exampleEnv\<lparr>StoredSubscriptions := Inr (Some ?r)\<rparr>"
  let ?env' = "exampleEnv\<lparr>StoredSubscriptions := Inr (Some (rev ?r))\<rparr>"
  let ?args = "\<lparr>UserId = ''u1'', ChannelId = ''channel3''\<rparr>"
  have h: "GetSubscriptions ?env = Inr ?r" and h': "GetSubscriptions ?env' = Inr (rev ?r)"
    by (simp_all add: GetSubscriptions_def)
  have srt: "sortsByRepository (sortSlice exampleEnv)"
    by (simp add: exampleEnv_def insertionSortLessFunc_sorts)
  then have st: "sortsByRepository (sortSlice ?env)" and st': "sortsByRepository (sortSlice ?env')"
    by simp_all
  have g: "GetSubscriptionsByChannel ?env (ChannelId ?args)
             = Inr [?widgets, ?legacy\<lparr>Repository := ''zeta/''\<rparr>]"
    by (simp add: GetSubscriptionsByChannel_def GetSubscriptions_def exampleEnv_def
        insertionSortLessFunc_def lessRepository_def)
  have l: "subscriptionLine ?widgets = ''* `acme/widgets` - pulls'' @ [CHR 0x0A]"
    "subscriptionLine (?legacy\<lparr>Repository := ''zeta/''\<rparr>) = ''* `zeta` - issues'' @ [CHR 0x0A]"
    by (simp_all add: subscriptionLine_def FlagsString_def emptyFlags_def Trim_def Let_def)
  note t = handleSubscriptionsList_sorted_by_repository [OF h st, of ?args]
  from t obtain subs where s: "GetSubscriptionsByChannel ?env (ChannelId ?args) = Inr subs"
    and e: "handleSubscriptionsList ?env ?args =
               (if subs = [] then ''Currently there are no subscriptions in this channel''
                else ''### Subscriptions in this channel'' @ [CHR 0x0A])
               @ concat (map subscriptionLine subs)"
    and o: "\<forall>env' repositories'.
                 GetSubscriptions env' = Inr repositories'
                 \<and> mset repositories' = mset ?r
                 \<and> sortsByRepository (sortSlice env') \<longrightarrow>
                 (\<exists>subs'. GetSubscriptionsByChannel env' (ChannelId ?args) = Inr subs'
                    \<and> map Repository subs' = map Repository subs)
                 \<and> (distinct (map Repository subs) \<longrightarrow>
                      handleSubscriptionsList env' ?args = handleSubscriptionsList ?env ?args)"
    by blast
  have subs: "subs = [?widgets, ?legacy\<lparr>Repository := ''zeta/''\<rparr>]"
    using s g by simp
  have a: "handleSubscriptionsList ?env ?args
     = ''### Subscriptions in this channel'' @ [CHR 0x0A]
       @ ''* `acme/widgets` - pulls'' @ [CHR 0x0A] @ ''* `zeta` - issues'' @ [CHR 0x0A]"
    using e l unfolding subs by simp
  have d: "distinct (map Repository subs)"
    unfolding subs by simp
  have m: "mset (rev ?r) = mset ?r" by simp
  have "handleSubscriptionsList ?env' ?args = handleSubscriptionsList ?env ?args"
    using o h' m st' d by blast
  then have b: "handleSubscriptionsList ?env' ?args
     = ''### Subscriptions in this channel'' @ [CHR 0x0A]
       @ ''* `acme/widgets` - pulls'' @ [CHR 0x0A] @ ''* `zeta` - issues'' @ [CHR 0x0A]"
    using a by simp
  show ?thesis using h srt a b by simp
qed

end
